theory Spec2Isabelle
  imports Complex_Main "HOL-Library.Word"
begin

section \<open>Decoded JSON values\<close>

text \<open>
  The value \<open>JSON.parse\<close> returns. A JavaScript number is finite or one of the two
  infinities (\<open>JSON.parse("1e999")\<close> is \<open>Infinity\<close>); \<open>NaN\<close> is never produced by
  \<open>JSON.parse\<close>. An object is the list of its own properties; \<open>map_of\<close> reads one.
\<close>

datatype js_number = Finite rat | PosInfinity | NegInfinity

datatype json =
    JNull
  | JBool bool
  | JNumber js_number
  | JString string
  | JArray "json list"
  | JObject "(string \<times> json) list"

text \<open>
  Property read \<open>v.k\<close> where \<open>k\<close> is none of the built-in properties of strings and
  arrays: \<open>None\<close> is \<open>undefined\<close>. On \<open>null\<close> JavaScript throws a \<open>TypeError\<close>;
  callers treat \<open>JNull\<close> before they use \<open>get_prop\<close>.
\<close>

fun get_prop :: "json \<Rightarrow> string \<Rightarrow> json option" where
  "get_prop (JObject fs) k = map_of fs k"
| "get_prop _ k = None"

section \<open>The schema layer\<close>

text \<open>
  The schemas of the source are built from six combinators of the validation library:
  \<open>z.string()\<close>, \<open>z.number()\<close>, \<open>z.uuid()\<close>, \<open>z.literal(s)\<close>, \<open>z.array(t)\<close> and
  \<open>z.object({...})\<close>. A schema is the term the source writes; \<open>zissues\<close> is the
  library's validation: every issue found, in the order of the schema's keys, each with
  the path of the value it is about. The format test of \<open>z.uuid()\<close> is the parameter
  \<open>is_uuid\<close>.
\<close>

datatype schema =
    ZString
  | ZNumber
  | ZUuid
  | ZLiteral string
  | ZArray schema
  | ZObject "(string \<times> schema) list"

datatype path_elem = Key string | Index nat

datatype issue_code =
    invalid_type string
  | invalid_value
  | invalid_format string

datatype issue = Issue (issue_kind: issue_code) (issue_path: "path_elem list")

fun zissues :: "(string \<Rightarrow> bool) \<Rightarrow> schema \<Rightarrow> path_elem list \<Rightarrow> json option \<Rightarrow> issue list"
and zissues_fields :: "(string \<Rightarrow> bool) \<Rightarrow> (string \<times> schema) list \<Rightarrow> path_elem list \<Rightarrow> (string \<times> json) list \<Rightarrow> issue list"
and zissues_elems :: "(string \<Rightarrow> bool) \<Rightarrow> schema \<Rightarrow> path_elem list \<Rightarrow> nat \<Rightarrow> json list \<Rightarrow> issue list"
where
  "zissues is_uuid ZString p x =
     (case x of Some (JString s) \<Rightarrow> [] | _ \<Rightarrow> [Issue (invalid_type ''string'') p])"
| "zissues is_uuid ZNumber p x =
     (case x of Some (JNumber (Finite q)) \<Rightarrow> [] | _ \<Rightarrow> [Issue (invalid_type ''number'') p])"
| "zissues is_uuid ZUuid p x =
     (case x of
        Some (JString s) \<Rightarrow> (if is_uuid s then [] else [Issue (invalid_format ''uuid'') p])
      | _ \<Rightarrow> [Issue (invalid_type ''string'') p])"
| "zissues is_uuid (ZLiteral l) p x =
     (case x of
        Some (JString s) \<Rightarrow> (if s = l then [] else [Issue invalid_value p])
      | _ \<Rightarrow> [Issue invalid_value p])"
| "zissues is_uuid (ZArray t) p x =
     (case x of
        Some (JArray xs) \<Rightarrow> zissues_elems is_uuid t p 0 xs
      | _ \<Rightarrow> [Issue (invalid_type ''array'') p])"
| "zissues is_uuid (ZObject shape) p x =
     (case x of
        Some (JObject fs) \<Rightarrow> zissues_fields is_uuid shape p fs
      | _ \<Rightarrow> [Issue (invalid_type ''object'') p])"
| "zissues_fields is_uuid [] p fs = []"
| "zissues_fields is_uuid ((k, t) # shape) p fs =
     zissues is_uuid t (p @ [Key k]) (map_of fs k) @ zissues_fields is_uuid shape p fs"
| "zissues_elems is_uuid t p i [] = []"
| "zissues_elems is_uuid t p i (x # xs) =
     zissues is_uuid t (p @ [Index i]) (Some x) @ zissues_elems is_uuid t p (Suc i) xs"

text \<open>
  The value a successful validation returns: the input with the keys the schema does not
  name removed from every object (the library's default for \<open>z.object\<close>).
\<close>

fun zoutput :: "schema \<Rightarrow> json \<Rightarrow> json"
and zoutput_fields :: "(string \<times> schema) list \<Rightarrow> (string \<times> json) list \<Rightarrow> (string \<times> json) list"
and zoutput_elems :: "schema \<Rightarrow> json list \<Rightarrow> json list"
where
  "zoutput (ZArray t) v = (case v of JArray xs \<Rightarrow> JArray (zoutput_elems t xs) | _ \<Rightarrow> v)"
| "zoutput (ZObject shape) v = (case v of JObject fs \<Rightarrow> JObject (zoutput_fields shape fs) | _ \<Rightarrow> v)"
| "zoutput ZString v = v"
| "zoutput ZNumber v = v"
| "zoutput ZUuid v = v"
| "zoutput (ZLiteral l) v = v"
| "zoutput_fields [] fs = []"
| "zoutput_fields ((k, t) # shape) fs =
     (case map_of fs k of
        None \<Rightarrow> zoutput_fields shape fs
      | Some x \<Rightarrow> (k, zoutput t x) # zoutput_fields shape fs)"
| "zoutput_elems t [] = []"
| "zoutput_elems t (x # xs) = zoutput t x # zoutput_elems t xs"


definition StartEventDataSchema :: schema where
  "StartEventDataSchema = ZObject
     [(''callId'', ZUuid),
      (''streamId'', ZUuid),
      (''accountId'', ZString),
      (''tracks'', ZArray ZString),
      (''mediaFormat'', ZObject [(''encoding'', ZString), (''sampleRate'', ZNumber)])]"

definition StartEventSchema :: schema where
  "StartEventSchema = ZObject
     [(''event'', ZLiteral ''start''),
      (''sequenceNumber'', ZNumber),
      (''start'', StartEventDataSchema),
      (''extra_headers'', ZString)]"

definition MediaEventDataSchema :: schema where
  "MediaEventDataSchema = ZObject
     [(''track'', ZString),
      (''timestamp'', ZString),
      (''chunk'', ZNumber),
      (''payload'', ZString)]"

text \<open>
  The object part of \<open>MediaEventSchema\<close>; the accessor its \<open>transform\<close> adds is
  \<open>getRawMedia\<close> below.
\<close>

definition MediaEventSchema :: schema where
  "MediaEventSchema = ZObject
     [(''sequenceNumber'', ZNumber),
      (''streamId'', ZUuid),
      (''event'', ZLiteral ''media''),
      (''media'', MediaEventDataSchema),
      (''extra_headers'', ZString)]"

definition DTMFEventDataSchema :: schema where
  "DTMFEventDataSchema = ZObject
     [(''track'', ZString),
      (''digit'', ZString),
      (''timestamp'', ZString)]"

definition DTMFEventSchema :: schema where
  "DTMFEventSchema = ZObject
     [(''event'', ZLiteral ''dtmf''),
      (''sequenceNumber'', ZNumber),
      (''streamId'', ZUuid),
      (''dtmf'', DTMFEventDataSchema),
      (''extra_headers'', ZString)]"

definition PlayedStreamEventSchema :: schema where
  "PlayedStreamEventSchema = ZObject
     [(''event'', ZLiteral ''playedStream''),
      (''sequenceNumber'', ZNumber),
      (''streamId'', ZUuid),
      (''name'', ZString)]"

definition ClearedAudioEventSchema :: schema where
  "ClearedAudioEventSchema = ZObject
     [(''event'', ZLiteral ''clearedAudio''),
      (''sequenceNumber'', ZNumber),
      (''streamId'', ZUuid)]"

section \<open>Errors, listeners and effects\<close>

text \<open>
  An \<open>Error\<close> object, by the place that makes it. \<open>Thrown m\<close> is what a listener
  throws; \<open>FailedToHandleEvent e\<close> and \<open>FailedToParseMessage e\<close> are the errors whose
  message is a prefix followed by the message of \<open>e\<close>; \<open>UnknownEventType v\<close> carries
  the value of \<open>data.event\<close>.
\<close>

datatype err =
    Thrown string
  | SyntaxError string
  | TypeError string
  | ZodError "issue list"
  | UnknownEventType "json option"
  | FailedToHandleEvent err
  | FailedToParseMessage err
  | WebSocketErrorOccurred
  | WebSocketNotConnected
  | StreamIdNotAvailable

datatype listener =
    OnConnection | OnStart | OnMedia | OnDtmf | OnPlayedStream | OnClearedAudio
  | OnError | OnClose

record request =
  req_headers :: "(string \<times> string) list"
  req_method :: "string option"
  req_url :: "string option"
  req_encrypted :: bool

datatype arg = RequestArg request | EventArg json | ErrorArg err | NoArg

text \<open>
  What the program does to the outside, in the order it does it: the call of the
  \<open>i\<close>-th registered listener of a kind with its argument, console output, \<open>ws.close\<close>
  and \<open>ws.send\<close> (with the value that is serialised), an exception that leaves a
  transport handler uncaught, and the entry into \<open>handleIncomingEvent\<close>.
\<close>

datatype effect =
    Call listener nat arg
  | ConsoleLog string
  | ConsoleWarn string
  | ConsoleError string "err option"
  | WsClose nat string
  | WsSend json
  | Uncaught err
  | Dispatch json

text \<open>
  A registered callback is modelled by its outcome: given everything that has happened on
  the connection so far and its argument, it returns (\<open>None\<close>) or throws (\<open>Some e\<close>).
  For a connection callback, which may be asynchronous, \<open>Some e\<close> is a throw or a
  rejected promise.
\<close>

type_synonym callback = "effect list \<Rightarrow> arg \<Rightarrow> err option"

text \<open>The functions the source imports: \<open>JSON.parse\<close>, the format test of \<open>z.uuid()\<close>
  and \<open>validateV3Signature\<close> of the vendor's library (\<open>Inl\<close>: it throws; \<open>Inr b\<close>:
  the truth value of what it returns).\<close>

record externals =
  JSON_parse :: "string \<Rightarrow> err + json"
  uuid_format :: "string \<Rightarrow> bool"
  validateV3Signature :: "string \<Rightarrow> string \<Rightarrow> string \<Rightarrow> string \<Rightarrow> string \<Rightarrow> err + bool"

record server =
  validateSignatureEnabled :: bool
  authToken :: "string option"
  connectionCallbacks :: "callback list"
  startCallbacks :: "callback list"
  mediaCallbacks :: "callback list"
  dtmfCallbacks :: "callback list"
  playedStreamCallbacks :: "callback list"
  clearedAudioCallbacks :: "callback list"
  errorCallbacks :: "callback list"
  closeCallbacks :: "callback list"

record ConnectionMetadata =
  streamId :: "string option"
  accountId :: "string option"
  callId :: "string option"
  headers :: "string option"

datatype ready_state = CONNECTING | OPEN | CLOSING | CLOSED

text \<open>
  One accepted socket with the variables the connection handler closes over:
  \<open>metadata\<close> is \<open>connectionMetadata.get(ws)\<close> (\<open>None\<close>: no entry), \<open>listening\<close>
  says that the three \<open>ws.on\<close> handlers are registered, \<open>awaiting\<close> is the index of the
  connection callback whose completion the handler is waiting for.
\<close>

record connection =
  readyState :: ready_state
  metadata :: "ConnectionMetadata option"
  messageBuffer :: "json list"
  isReady :: bool
  listening :: bool
  awaiting :: "nat option"
  trace :: "effect list"


section \<open>The server class\<close>

subsection \<open>Listener loops and the error path\<close>

text \<open>\<open>callbacks.forEach((cb) => cb(x, ws))\<close>: the first listener that throws ends the
  loop, and the exception leaves it.\<close>

fun forEach :: "listener \<Rightarrow> callback list \<Rightarrow> nat \<Rightarrow> arg \<Rightarrow> effect list \<Rightarrow> err option \<times> effect list" where
  "forEach k [] i a t = (None, t)"
| "forEach k (cb # cbs) i a t =
     (case cb (t @ [Call k i a]) a of
        Some e \<Rightarrow> (Some e, t @ [Call k i a])
      | None \<Rightarrow> forEach k cbs (Suc i) a (t @ [Call k i a]))"

text \<open>The loop of the set-up failure path, whose body is \<open>try { cb(err, ws) } catch { }\<close>.\<close>

fun forEach_try :: "listener \<Rightarrow> callback list \<Rightarrow> nat \<Rightarrow> arg \<Rightarrow> effect list \<Rightarrow> effect list" where
  "forEach_try k [] i a t = t"
| "forEach_try k (cb # cbs) i a t =
     (case cb (t @ [Call k i a]) a of
        Some e \<Rightarrow> forEach_try k cbs (Suc i) a (t @ [Call k i a])
      | None \<Rightarrow> forEach_try k cbs (Suc i) a (t @ [Call k i a]))"

definition invoke :: "listener \<Rightarrow> callback list \<Rightarrow> arg \<Rightarrow> connection \<Rightarrow> err option \<times> connection" where
  "invoke k cbs a c = (case forEach k cbs 0 a (trace c) of (r, t) \<Rightarrow> (r, c\<lparr>trace := t\<rparr>))"

definition handleError :: "server \<Rightarrow> err \<Rightarrow> connection \<Rightarrow> err option \<times> connection" where
  "handleError srv error c =
     (if length (errorCallbacks srv) > 0
      then invoke OnError (errorCallbacks srv) (ErrorArg error) c
      else (None, c\<lparr>trace := trace c @ [ConsoleError ''[PlivoWebSocketServer] Error:'' (Some error)]\<rparr>))"

subsection \<open>The event dispatcher\<close>

text \<open>\<open>Schema.parse(data)\<close>: the stripped value, or a thrown error with every issue.\<close>

definition parse :: "externals \<Rightarrow> schema \<Rightarrow> json \<Rightarrow> err + json" where
  "parse ext s data =
     (case zissues (uuid_format ext) s [] (Some data) of
        [] \<Rightarrow> Inr (zoutput s data)
      | i # is \<Rightarrow> Inl (ZodError (i # is)))"

text \<open>The string read at a chain of properties of a validated event.\<close>

fun string_at :: "json \<Rightarrow> string list \<Rightarrow> string option" where
  "string_at (JString s) [] = Some s"
| "string_at v [] = None"
| "string_at v (k # ks) = (case get_prop v k of None \<Rightarrow> None | Some x \<Rightarrow> string_at x ks)"

definition empty_metadata :: ConnectionMetadata where
  "empty_metadata = \<lparr>streamId = None, accountId = None, callId = None, headers = None\<rparr>"

text \<open>The body of the \<open>try\<close> block of \<open>handleIncomingEvent\<close>.\<close>

definition handleIncomingEvent_try :: "externals \<Rightarrow> server \<Rightarrow> json \<Rightarrow> connection \<Rightarrow> err option \<times> connection" where
  "handleIncomingEvent_try ext srv data c =
     (if data = JNull then (Some (TypeError ''Cannot read properties of null (reading event)''), c)
      else if get_prop data ''event'' = Some (JString ''start'') then
        (case parse ext StartEventSchema data of
           Inl e \<Rightarrow> (Some e, c)
         | Inr startEvent \<Rightarrow>
             invoke OnStart (startCallbacks srv) (EventArg startEvent)
               (c\<lparr>metadata := Some
                  ((case metadata c of None \<Rightarrow> empty_metadata | Some m \<Rightarrow> m)
                     \<lparr>streamId := string_at startEvent [''start'', ''streamId''],
                      accountId := string_at startEvent [''start'', ''accountId''],
                      callId := string_at startEvent [''start'', ''callId''],
                      headers := string_at startEvent [''extra_headers'']\<rparr>)\<rparr>))
      else if get_prop data ''event'' = Some (JString ''media'') then
        (case parse ext MediaEventSchema data of
           Inl e \<Rightarrow> (Some e, c)
         | Inr mediaEvent \<Rightarrow> invoke OnMedia (mediaCallbacks srv) (EventArg mediaEvent) c)
      else if get_prop data ''event'' = Some (JString ''dtmf'') then
        (case parse ext DTMFEventSchema data of
           Inl e \<Rightarrow> (Some e, c)
         | Inr dtmfEvent \<Rightarrow> invoke OnDtmf (dtmfCallbacks srv) (EventArg dtmfEvent) c)
      else if get_prop data ''event'' = Some (JString ''playedStream'') then
        (case parse ext PlayedStreamEventSchema data of
           Inl e \<Rightarrow> (Some e, c)
         | Inr playedStreamEvent \<Rightarrow>
             invoke OnPlayedStream (playedStreamCallbacks srv) (EventArg playedStreamEvent) c)
      else if get_prop data ''event'' = Some (JString ''clearedAudio'') then
        (case parse ext ClearedAudioEventSchema data of
           Inl e \<Rightarrow> (Some e, c)
         | Inr clearedAudioEvent \<Rightarrow>
             invoke OnClearedAudio (clearedAudioCallbacks srv) (EventArg clearedAudioEvent) c)
      else handleError srv (UnknownEventType (get_prop data ''event'')) c)"

definition handleIncomingEvent :: "externals \<Rightarrow> server \<Rightarrow> json \<Rightarrow> connection \<Rightarrow> err option \<times> connection" where
  "handleIncomingEvent ext srv data c =
     (case handleIncomingEvent_try ext srv data (c\<lparr>trace := trace c @ [Dispatch data]\<rparr>) of
        (None, c') \<Rightarrow> (None, c')
      | (Some error, c') \<Rightarrow> handleError srv (FailedToHandleEvent error) c')"

subsection \<open>The connection handler\<close>

definition header :: "request \<Rightarrow> string \<Rightarrow> string option" where
  "header req name = map_of (req_headers req) name"

definition truthy :: "string option \<Rightarrow> bool" where
  "truthy s = (case s of None \<Rightarrow> False | Some x \<Rightarrow> x \<noteq> [])"

definition validateConnectionSignature :: "externals \<Rightarrow> server \<Rightarrow> request \<Rightarrow> bool \<times> effect list" where
  "validateConnectionSignature ext srv req =
     (let signature = header req ''x-plivo-signature-v3'';
          nonce = header req ''x-plivo-signature-v3-nonce''
      in if \<not> truthy signature \<or> \<not> truthy nonce
         then (False, [ConsoleLog ''validateConnectionSignature'',
                       ConsoleError ''[PlivoWebSocketServer] Missing V3 signature headers'' None])
         else
           let host = (if truthy (header req ''host'') then the (header req ''host'') else []);
               protocol = (if req_encrypted req then ''https'' else ''http'');
               uri = protocol @ ''://'' @ host @ (if truthy (req_url req) then the (req_url req) else ''/'');
               method = (case req_method req of None \<Rightarrow> ''GET'' | Some m \<Rightarrow> m);
               token = (case authToken srv of None \<Rightarrow> [] | Some tk \<Rightarrow> tk)
           in case validateV3Signature ext method uri (the nonce) token (the signature) of
                Inr b \<Rightarrow> (b, [ConsoleLog ''validateConnectionSignature'', ConsoleLog ''validateV3Signature''])
              | Inl error \<Rightarrow>
                  (False, [ConsoleLog ''validateConnectionSignature'', ConsoleLog ''validateV3Signature'',
                           ConsoleError ''[PlivoWebSocketServer] Signature validation error:'' (Some error)]))"

definition ws_close :: "nat \<Rightarrow> string \<Rightarrow> connection \<Rightarrow> connection" where
  "ws_close code reason c =
     c\<lparr>readyState := (if readyState c = OPEN then CLOSING else readyState c),
       trace := trace c @ [WsClose code reason]\<rparr>"

definition ws_send :: "json \<Rightarrow> connection \<Rightarrow> connection" where
  "ws_send v c = c\<lparr>trace := trace c @ [WsSend v]\<rparr>"

text \<open>\<open>ws.on('message', ...)\<close>; an exception that leaves the handler is returned.\<close>

definition on_message :: "externals \<Rightarrow> server \<Rightarrow> string \<Rightarrow> connection \<Rightarrow> err option \<times> connection" where
  "on_message ext srv data c =
     (case (case JSON_parse ext data of
              Inl error \<Rightarrow> (Some error, c)
            | Inr parsed \<Rightarrow>
                if isReady c then handleIncomingEvent ext srv parsed c
                else (None, c\<lparr>messageBuffer := messageBuffer c @ [parsed]\<rparr>)) of
        (None, c') \<Rightarrow> (None, c')
      | (Some error, c') \<Rightarrow> handleError srv (FailedToParseMessage error) c')"

definition on_error :: "server \<Rightarrow> connection \<Rightarrow> err option \<times> connection" where
  "on_error srv c = handleError srv WebSocketErrorOccurred c"

definition on_close :: "server \<Rightarrow> connection \<Rightarrow> err option \<times> connection" where
  "on_close srv c = invoke OnClose (closeCallbacks srv) NoArg c"

text \<open>The \<open>catch\<close> block of the connection handler.\<close>

definition setup_failed :: "server \<Rightarrow> err \<Rightarrow> connection \<Rightarrow> connection" where
  "setup_failed srv error c =
     ws_close 1011 ''Connection setup failed''
       (c\<lparr>trace := forEach_try OnError (errorCallbacks srv) 0 (ErrorArg error)
            (trace c @ [ConsoleError ''[PlivoWebSocketServer] Connection setup failed:'' (Some error)])\<rparr>)"

text \<open>\<open>for (const msg of messageBuffer) this.handleIncomingEvent(msg, ws)\<close>.\<close>

fun replay :: "externals \<Rightarrow> server \<Rightarrow> json list \<Rightarrow> connection \<Rightarrow> err option \<times> connection" where
  "replay ext srv [] c = (None, c)"
| "replay ext srv (msg # msgs) c =
     (case handleIncomingEvent ext srv msg c of
        (Some error, c') \<Rightarrow> (Some error, c')
      | (None, c') \<Rightarrow> replay ext srv msgs c')"

text \<open>
  The \<open>try\<close> block of the connection handler from its \<open>i\<close>-th connection callback on:
  the callback is called and the handler waits for it (\<open>awaiting\<close>); after the last one
  the connection is ready and the buffer is replayed.
\<close>

definition connection_loop :: "externals \<Rightarrow> server \<Rightarrow> request \<Rightarrow> nat \<Rightarrow> connection \<Rightarrow> connection" where
  "connection_loop ext srv req i c =
     (if i < length (connectionCallbacks srv)
      then c\<lparr>awaiting := Some i, trace := trace c @ [Call OnConnection i (RequestArg req)]\<rparr>
      else
        (case replay ext srv (messageBuffer c) (c\<lparr>isReady := True, awaiting := None\<rparr>) of
           (None, c') \<Rightarrow> c'
         | (Some error, c') \<Rightarrow> setup_failed srv error c'))"

text \<open>The awaited connection callback completes: it resolves or it fails.\<close>

definition settle :: "externals \<Rightarrow> server \<Rightarrow> request \<Rightarrow> connection \<Rightarrow> connection" where
  "settle ext srv req c =
     (case awaiting c of
        None \<Rightarrow> c
      | Some i \<Rightarrow>
          if i < length (connectionCallbacks srv) then
            (case (connectionCallbacks srv ! i) (trace c) (RequestArg req) of
               Some error \<Rightarrow> setup_failed srv error (c\<lparr>awaiting := None\<rparr>)
             | None \<Rightarrow> connection_loop ext srv req (Suc i) c)
          else c)"

definition new_socket :: connection where
  "new_socket = \<lparr>readyState = OPEN, metadata = None, messageBuffer = [], isReady = False,
     listening = False, awaiting = None, trace = []\<rparr>"

text \<open>The handler of the server's \<open>connection\<close> event, up to its first wait.\<close>

definition on_connection :: "externals \<Rightarrow> server \<Rightarrow> request \<Rightarrow> connection" where
  "on_connection ext srv req =
     (case (if validateSignatureEnabled srv then validateConnectionSignature ext srv req
            else (True, [])) of
        (isValid, t) \<Rightarrow>
          if \<not> isValid then
            ws_close 1008 ''Signature validation failed''
              (new_socket\<lparr>trace := t @ [ConsoleError ''[PlivoWebSocketServer] V3 signature validation failed'' None]\<rparr>)
          else
            connection_loop ext srv req 0
              (new_socket\<lparr>metadata := Some empty_metadata, listening := True, trace := t\<rparr>))"

subsection \<open>What the transport does to a connection\<close>

datatype transport_event = Message string | SocketError | SocketClose | Settled

definition uncaught :: "err option \<times> connection \<Rightarrow> connection" where
  "uncaught r = (case r of (None, c) \<Rightarrow> c | (Some e, c) \<Rightarrow> c\<lparr>trace := trace c @ [Uncaught e]\<rparr>)"

fun step :: "externals \<Rightarrow> server \<Rightarrow> request \<Rightarrow> connection \<Rightarrow> transport_event \<Rightarrow> connection" where
  "step ext srv req c (Message data) =
     (if listening c then uncaught (on_message ext srv data c) else c)"
| "step ext srv req c SocketError =
     (if listening c then uncaught (on_error srv c) else c)"
| "step ext srv req c SocketClose =
     (if listening c then uncaught (on_close srv (c\<lparr>readyState := CLOSED\<rparr>))
      else c\<lparr>readyState := CLOSED\<rparr>)"
| "step ext srv req c Settled = settle ext srv req c"

definition run :: "externals \<Rightarrow> server \<Rightarrow> request \<Rightarrow> transport_event list \<Rightarrow> connection" where
  "run ext srv req evs = foldl (step ext srv req) (on_connection ext srv req) evs"

subsection \<open>Outbound commands and accessors\<close>

definition stored_streamId :: "connection \<Rightarrow> string option" where
  "stored_streamId c = (case metadata c of None \<Rightarrow> None | Some m \<Rightarrow> streamId m)"

definition checkpoint :: "connection \<Rightarrow> string \<Rightarrow> err option \<times> connection" where
  "checkpoint c name =
     (if readyState c \<noteq> OPEN then (Some WebSocketNotConnected, c)
      else if \<not> truthy (stored_streamId c) then (Some StreamIdNotAvailable, c)
      else (None, ws_send (JObject [(''event'', JString ''checkpoint''),
                                    (''streamId'', JString (the (stored_streamId c))),
                                    (''name'', JString name)]) c))"

definition clearAudio :: "connection \<Rightarrow> err option \<times> connection" where
  "clearAudio c =
     (if readyState c \<noteq> OPEN then (Some WebSocketNotConnected, c)
      else if \<not> truthy (stored_streamId c) then (Some StreamIdNotAvailable, c)
      else (None, ws_send (JObject [(''event'', JString ''clearAudio''),
                                    (''streamId'', JString (the (stored_streamId c)))]) c))"

definition getStreamId :: "connection \<Rightarrow> string option" where
  "getStreamId c = (case metadata c of None \<Rightarrow> None | Some m \<Rightarrow> streamId m)"

definition getAccountId :: "connection \<Rightarrow> string option" where
  "getAccountId c = (case metadata c of None \<Rightarrow> None | Some m \<Rightarrow> accountId m)"

definition getCallId :: "connection \<Rightarrow> string option" where
  "getCallId c = (case metadata c of None \<Rightarrow> None | Some m \<Rightarrow> callId m)"

definition getHeaders :: "connection \<Rightarrow> string option" where
  "getHeaders c = (case metadata c of None \<Rightarrow> None | Some m \<Rightarrow> headers m)"

definition isActive :: "connection \<Rightarrow> bool" where
  "isActive c = (readyState c = OPEN)"

unbundle bit_operations_syntax

subsection \<open>Base64, as \<open>Buffer\<close> does it\<close>

text \<open>
  \<open>buffer.toString('base64')\<close> and \<open>Buffer.from(s, 'base64')\<close> are built into the
  runtime. The encoder is that of RFC 4648 with the standard alphabet and padding. The
  decoder reads up to the first \<open>=\<close>, accepts the standard and the URL-safe alphabet,
  skips every other character, and turns each group of four sextets into three bytes, a
  last group of three into two bytes and a last group of two into one byte.
\<close>

type_synonym byte = "8 word"

definition base64_table :: string where
  "base64_table = ''ABCDEFGHIJKLMNOPQRSTUVWXYZabcdefghijklmnopqrstuvwxyz0123456789+/''"

definition base64_char :: "byte \<Rightarrow> char" where
  "base64_char s = base64_table ! unat s"

fun base64_encode :: "byte list \<Rightarrow> string" where
  "base64_encode (a # b # c # r) =
     base64_char (drop_bit 2 a) #
     base64_char (push_bit 4 (a AND 3) OR drop_bit 4 b) #
     base64_char (push_bit 2 (b AND 15) OR drop_bit 6 c) #
     base64_char (c AND 63) # base64_encode r"
| "base64_encode [a, b] =
     [base64_char (drop_bit 2 a),
      base64_char (push_bit 4 (a AND 3) OR drop_bit 4 b),
      base64_char (push_bit 2 (b AND 15)),
      CHR ''='']"
| "base64_encode [a] =
     [base64_char (drop_bit 2 a), base64_char (push_bit 4 (a AND 3)), CHR ''='', CHR ''='']"
| "base64_encode [] = []"

fun index_of :: "char \<Rightarrow> string \<Rightarrow> nat \<Rightarrow> nat option" where
  "index_of c [] i = None"
| "index_of c (x # xs) i = (if c = x then Some i else index_of c xs (Suc i))"

definition unbase64 :: "char \<Rightarrow> byte option" where
  "unbase64 c =
     (if c = CHR ''-'' then Some 62
      else if c = CHR ''_'' then Some 63
      else map_option of_nat (index_of c base64_table 0))"

fun sextets :: "string \<Rightarrow> byte list" where
  "sextets [] = []"
| "sextets (c # cs) =
     (if c = CHR ''='' then []
      else case unbase64 c of None \<Rightarrow> sextets cs | Some s \<Rightarrow> s # sextets cs)"

fun group_bytes :: "byte list \<Rightarrow> byte list" where
  "group_bytes (a # b # c # d # r) =
     (push_bit 2 a OR drop_bit 4 b) # (push_bit 4 b OR drop_bit 2 c) # (push_bit 6 c OR d) #
     group_bytes r"
| "group_bytes [a, b, c] = [push_bit 2 a OR drop_bit 4 b, push_bit 4 b OR drop_bit 2 c]"
| "group_bytes [a, b] = [push_bit 2 a OR drop_bit 4 b]"
| "group_bytes r = []"

definition base64_decode :: "string \<Rightarrow> byte list" where
  "base64_decode s = group_bytes (sextets s)"

text \<open>\<open>playAudio\<close>: the payload is a \<open>Buffer\<close>, a \<open>Uint8Array\<close> or an \<open>ArrayBuffer\<close>, in
  each case a sequence of bytes.\<close>

definition playAudio :: "connection \<Rightarrow> string \<Rightarrow> js_number \<Rightarrow> byte list \<Rightarrow> connection" where
  "playAudio c contentType sampleRate payload =
     (if readyState c \<noteq> OPEN
      then c\<lparr>trace := trace c @
             [ConsoleWarn ''Attempted to play audio on a closed WebSocket connection.'']\<rparr>
      else ws_send (JObject
             [(''event'', JString ''playAudio''),
              (''media'', JObject
                 [(''contentType'', JString contentType),
                  (''sampleRate'', JNumber sampleRate),
                  (''payload'', JString (base64_encode payload))])]) c)"

text \<open>The accessor \<open>MediaEventSchema\<close> adds to a validated media event.\<close>

definition getRawMedia :: "json \<Rightarrow> byte list" where
  "getRawMedia mediaEvent =
     (case string_at mediaEvent [''media'', ''payload''] of
        None \<Rightarrow> []
      | Some payload \<Rightarrow> base64_decode payload)"

section \<open>Observations used by the properties\<close>

fun dispatched :: "effect list \<Rightarrow> json list" where
  "dispatched [] = []"
| "dispatched (Dispatch j # t) = j # dispatched t"
| "dispatched (x # t) = dispatched t"

fun received_json :: "externals \<Rightarrow> transport_event list \<Rightarrow> json list" where
  "received_json ext [] = []"
| "received_json ext (Message data # evs) =
     (case JSON_parse ext data of Inl e \<Rightarrow> received_json ext evs | Inr j \<Rightarrow> j # received_json ext evs)"
| "received_json ext (ev # evs) = received_json ext evs"

definition control :: "connection \<Rightarrow> ready_state \<times> json list \<times> bool \<times> bool \<times> nat option" where
  "control c = (readyState c, messageBuffer c, isReady c, listening c, awaiting c)"

definition never_throws :: "callback list \<Rightarrow> bool" where
  "never_throws cbs = (\<forall>cb \<in> set cbs. \<forall>t a. cb t a = None)"

text \<open>What a step does to the gate, whatever the listeners do.\<close>

definition gate_shut :: "connection \<Rightarrow> bool" where
  "gate_shut c = (\<not> isReady c \<and> awaiting c = None \<and> dispatched (trace c) = [])"


subsection \<open>Example inputs\<close>

text \<open>A parser that agrees with \<open>JSON.parse\<close> on the three texts used below and on texts
  that are no JSON at all.\<close>

definition toy_JSON_parse :: "string \<Rightarrow> err + json" where
  "toy_JSON_parse s =
     (if s = ''null'' then Inr JNull
      else if s = ''{}'' then Inr (JObject [])
      else if s = ''[]'' then Inr (JArray [])
      else Inl (SyntaxError ''Unexpected token''))"

definition example_ext :: externals where
  "example_ext =
     \<lparr>JSON_parse = toy_JSON_parse,
      uuid_format = (\<lambda>s. length s = 36 \<and> s ! 8 = CHR ''-'' \<and> s ! 13 = CHR ''-'' \<and>
                          s ! 18 = CHR ''-'' \<and> s ! 23 = CHR ''-''),
      validateV3Signature = (\<lambda>method uri nonce token signature. Inr True)\<rparr>"

definition example_request :: request where
  "example_request =
     \<lparr>req_headers = [(''host'', ''example.test'')], req_method = Some ''GET'',
      req_url = Some ''/stream'', req_encrypted = False\<rparr>"

definition bare_server :: server where
  "bare_server =
     \<lparr>validateSignatureEnabled = False, authToken = None, connectionCallbacks = [],
      startCallbacks = [], mediaCallbacks = [], dtmfCallbacks = [], playedStreamCallbacks = [],
      clearedAudioCallbacks = [], errorCallbacks = [], closeCallbacks = []\<rparr>"

definition failing_setup_server :: server where
  "failing_setup_server =
     bare_server\<lparr>connectionCallbacks := [\<lambda>t a. Some (Thrown ''setup failed'')],
                 errorCallbacks := [\<lambda>t a. None]\<rparr>"

subsection \<open>The requirements on a start event, field by field\<close>

fun value_at :: "json option \<Rightarrow> path_elem list \<Rightarrow> json option" where
  "value_at x [] = x"
| "value_at (Some (JObject fs)) (Key k # p) = value_at (map_of fs k) p"
| "value_at (Some (JArray xs)) (Index i # p) = (if i < length xs then value_at (Some (xs ! i)) p else None)"
| "value_at x (e # p) = None"

fun is_string :: "json option \<Rightarrow> bool" where
  "is_string (Some (JString s)) = True"
| "is_string x = False"

fun is_number :: "json option \<Rightarrow> bool" where
  "is_number (Some (JNumber (Finite q))) = True"
| "is_number x = False"

fun is_integer :: "json option \<Rightarrow> bool" where
  "is_integer (Some (JNumber (Finite q))) = (of_int \<lfloor>q\<rfloor> = q)"
| "is_integer x = False"

fun is_positive_integer :: "json option \<Rightarrow> bool" where
  "is_positive_integer (Some (JNumber (Finite q))) = (0 < q \<and> of_int \<lfloor>q\<rfloor> = q)"
| "is_positive_integer x = False"

fun is_uuid_string :: "(string \<Rightarrow> bool) \<Rightarrow> json option \<Rightarrow> bool" where
  "is_uuid_string is_uuid (Some (JString s)) = is_uuid s"
| "is_uuid_string is_uuid x = False"

fun is_string_array :: "json option \<Rightarrow> bool" where
  "is_string_array (Some (JArray xs)) = list_all (\<lambda>x. is_string (Some x)) xs"
| "is_string_array x = False"

fun is_object :: "json option \<Rightarrow> bool" where
  "is_object (Some (JObject fs)) = True"
| "is_object x = False"

text \<open>The requirements as the specification lists them.\<close>

definition start_requirements_as_specified :: "(string \<Rightarrow> bool) \<Rightarrow> json \<Rightarrow> bool" where
  "start_requirements_as_specified is_uuid v =
     (is_uuid_string is_uuid (value_at (Some v) [Key ''start'', Key ''callId'']) \<and>
      is_uuid_string is_uuid (value_at (Some v) [Key ''start'', Key ''streamId'']) \<and>
      is_string (value_at (Some v) [Key ''start'', Key ''accountId'']) \<and>
      is_string_array (value_at (Some v) [Key ''start'', Key ''tracks'']) \<and>
      is_string (value_at (Some v) [Key ''start'', Key ''mediaFormat'', Key ''encoding'']) \<and>
      is_positive_integer (value_at (Some v) [Key ''start'', Key ''mediaFormat'', Key ''sampleRate'']) \<and>
      is_integer (value_at (Some v) [Key ''sequenceNumber'']) \<and>
      is_string (value_at (Some v) [Key ''extra_headers'']))"

text \<open>The requirements with \<open>number\<close> where the specification says integer.\<close>

definition start_requirements :: "(string \<Rightarrow> bool) \<Rightarrow> json \<Rightarrow> bool" where
  "start_requirements is_uuid v =
     (is_uuid_string is_uuid (value_at (Some v) [Key ''start'', Key ''callId'']) \<and>
      is_uuid_string is_uuid (value_at (Some v) [Key ''start'', Key ''streamId'']) \<and>
      is_string (value_at (Some v) [Key ''start'', Key ''accountId'']) \<and>
      is_string_array (value_at (Some v) [Key ''start'', Key ''tracks'']) \<and>
      is_string (value_at (Some v) [Key ''start'', Key ''mediaFormat'', Key ''encoding'']) \<and>
      is_number (value_at (Some v) [Key ''start'', Key ''mediaFormat'', Key ''sampleRate'']) \<and>
      is_number (value_at (Some v) [Key ''sequenceNumber'']) \<and>
      is_string (value_at (Some v) [Key ''extra_headers'']))"

text \<open>
  The fields of a value that do not meet their requirement, as paths, in the order of the
  schema. Of an object that is missing or is no object only the object is listed, not
  its fields; of an array of strings, the elements that are no strings.
\<close>

definition unless :: "bool \<Rightarrow> path_elem list \<Rightarrow> path_elem list list" where
  "unless ok p = (if ok then [] else [p])"

definition bad_elements :: "path_elem list \<Rightarrow> nat \<Rightarrow> json list \<Rightarrow> path_elem list list" where
  "bad_elements p i xs =
     map (\<lambda>nx. p @ [Index (fst nx)]) (filter (\<lambda>nx. \<not> is_string (Some (snd nx))) (enumerate i xs))"

fun bad_strings :: "path_elem list \<Rightarrow> json option \<Rightarrow> path_elem list list" where
  "bad_strings p (Some (JArray xs)) = bad_elements p 0 xs"
| "bad_strings p x = [p]"

definition start_violations :: "(string \<Rightarrow> bool) \<Rightarrow> json \<Rightarrow> path_elem list list" where
  "start_violations is_uuid v =
     unless (value_at (Some v) [Key ''event''] = Some (JString ''start'')) [Key ''event''] @
     unless (is_number (value_at (Some v) [Key ''sequenceNumber''])) [Key ''sequenceNumber''] @
     (if \<not> is_object (value_at (Some v) [Key ''start'']) then [[Key ''start'']]
      else
        unless (is_uuid_string is_uuid (value_at (Some v) [Key ''start'', Key ''callId'']))
          [Key ''start'', Key ''callId''] @
        unless (is_uuid_string is_uuid (value_at (Some v) [Key ''start'', Key ''streamId'']))
          [Key ''start'', Key ''streamId''] @
        unless (is_string (value_at (Some v) [Key ''start'', Key ''accountId'']))
          [Key ''start'', Key ''accountId''] @
        bad_strings [Key ''start'', Key ''tracks'']
          (value_at (Some v) [Key ''start'', Key ''tracks'']) @
        (if \<not> is_object (value_at (Some v) [Key ''start'', Key ''mediaFormat''])
         then [[Key ''start'', Key ''mediaFormat'']]
         else
           unless (is_string (value_at (Some v) [Key ''start'', Key ''mediaFormat'', Key ''encoding'']))
             [Key ''start'', Key ''mediaFormat'', Key ''encoding''] @
           unless (is_number (value_at (Some v) [Key ''start'', Key ''mediaFormat'', Key ''sampleRate'']))
             [Key ''start'', Key ''mediaFormat'', Key ''sampleRate''])) @
     unless (is_string (value_at (Some v) [Key ''extra_headers''])) [Key ''extra_headers'']"

definition example_start :: "string \<Rightarrow> rat \<Rightarrow> json" where
  "example_start sid rate = JObject
     [(''event'', JString ''start''),
      (''sequenceNumber'', JNumber (Finite 0)),
      (''start'', JObject
         [(''callId'', JString ''9f1c2b7e-3d4a-4e5f-8a6b-7c8d9e0f1a2b''),
          (''streamId'', JString sid),
          (''accountId'', JString ''MA123''),
          (''tracks'', JArray [JString ''inbound'']),
          (''mediaFormat'', JObject
             [(''encoding'', JString ''audio/x-mulaw''), (''sampleRate'', JNumber (Finite rate))])]),
      (''extra_headers'', JString ''a=b'')]"

subsection \<open>The metadata a connection holds\<close>

definition valid_start :: "externals \<Rightarrow> json \<Rightarrow> bool" where
  "valid_start ext data =
     (get_prop data ''event'' = Some (JString ''start'') \<and> start_requirements (uuid_format ext) data)"

definition start_metadata :: "json \<Rightarrow> ConnectionMetadata" where
  "start_metadata data =
     \<lparr>streamId = string_at data [''start'', ''streamId''],
      accountId = string_at data [''start'', ''accountId''],
      callId = string_at data [''start'', ''callId''],
      headers = string_at data [''extra_headers'']\<rparr>"

text \<open>The last valid start event of a list of dispatched values.\<close>

fun latest_start :: "externals \<Rightarrow> json list \<Rightarrow> json option" where
  "latest_start ext [] = None"
| "latest_start ext (j # js) =
     (case latest_start ext js of
        Some k \<Rightarrow> Some k
      | None \<Rightarrow> if valid_start ext j then Some j else None)"

text \<open>
  The invariant of the metadata: an accepted connection holds the values of the last
  valid start event that was dispatched, a rejected one holds no entry.
\<close>

definition metadata_inv :: "externals \<Rightarrow> connection \<Rightarrow> bool" where
  "metadata_inv ext c =
     (if listening c
      then metadata c = Some (case latest_start ext (dispatched (trace c)) of
                                None \<Rightarrow> empty_metadata
                              | Some j \<Rightarrow> start_metadata j)
      else metadata c = None \<and> awaiting c = None)"

text \<open>Two start events with different stream identifiers, dispatched one after the other
  on a connection that was accepted by a server without listeners.\<close>

definition after_first_start :: connection where
  "after_first_start =
     snd (handleIncomingEvent example_ext bare_server
            (example_start ''11111111-aaaa-4bbb-8ccc-000000000001'' 8000)
            (on_connection example_ext bare_server example_request))"

definition after_second_start :: connection where
  "after_second_start =
     snd (handleIncomingEvent example_ext bare_server
            (example_start ''22222222-aaaa-4bbb-8ccc-000000000002'' 8000)
            after_first_start)"

definition signing_server :: server where
  "signing_server = bare_server\<lparr>validateSignatureEnabled := True, authToken := Some ''secret''\<rparr>"

subsection \<open>The readiness gate\<close>



subsection \<open>Dispatch to the listeners of one kind\<close>

text \<open>The schema and the listeners the dispatcher's \<open>switch\<close> uses for a value of
  \<open>data.event\<close>.\<close>

definition route :: "server \<Rightarrow> string \<Rightarrow> (schema \<times> listener \<times> callback list) option" where
  "route srv kind =
     (if kind = ''start'' then Some (StartEventSchema, OnStart, startCallbacks srv)
      else if kind = ''media'' then Some (MediaEventSchema, OnMedia, mediaCallbacks srv)
      else if kind = ''dtmf'' then Some (DTMFEventSchema, OnDtmf, dtmfCallbacks srv)
      else if kind = ''playedStream'' then
        Some (PlayedStreamEventSchema, OnPlayedStream, playedStreamCallbacks srv)
      else if kind = ''clearedAudio'' then
        Some (ClearedAudioEventSchema, OnClearedAudio, clearedAudioCallbacks srv)
      else None)"

text \<open>What the error path does with an error when no error listener throws: every
  error listener is called with it, or it is logged when none is registered.\<close>

definition error_report :: "server \<Rightarrow> err \<Rightarrow> effect list" where
  "error_report srv e =
     (if errorCallbacks srv = [] then [ConsoleError ''[PlivoWebSocketServer] Error:'' (Some e)]
      else map (\<lambda>n. Call OnError n (ErrorArg e)) [0..<length (errorCallbacks srv)])"

definition example_cleared :: json where
  "example_cleared = JObject
     [(''event'', JString ''clearedAudio''),
      (''sequenceNumber'', JNumber (Finite 7)),
      (''streamId'', JString ''11111111-aaaa-4bbb-8ccc-000000000001'')]"

definition two_listener_server :: server where
  "two_listener_server =
     bare_server\<lparr>clearedAudioCallbacks := [\<lambda>t a. Some (Thrown ''listener failed''), \<lambda>t a. None]\<rparr>"

definition throwing_error_server :: server where
  "throwing_error_server =
     bare_server\<lparr>connectionCallbacks := [\<lambda>t a. None],
                 errorCallbacks := [\<lambda>t a. Some (Thrown ''error listener failed''), \<lambda>t a. None]\<rparr>"

subsection \<open>Bytes and a media event\<close>

definition all_bytes :: "byte list" where
  "all_bytes = map of_nat [0..<256]"

definition example_media :: "string \<Rightarrow> json" where
  "example_media payload = JObject
     [(''sequenceNumber'', JNumber (Finite 2)),
      (''streamId'', JString ''11111111-aaaa-4bbb-8ccc-000000000001''),
      (''event'', JString ''media''),
      (''media'', JObject
         [(''track'', JString ''inbound''), (''timestamp'', JString ''20''),
          (''chunk'', JNumber (Finite 1)), (''payload'', JString payload)]),
      (''extra_headers'', JString [])]"

text \<open>The effects by which the error path reports an error: a call of an error listener
  with it, or the console line that carries it.\<close>

fun reports :: "err \<Rightarrow> effect \<Rightarrow> bool" where
  "reports e (Call OnError n (ErrorArg e')) = (e' = e)"
| "reports e (ConsoleError s (Some e')) = (e' = e)"
| "reports e x = False"

text \<open>Three listeners for \<open>clearedAudio\<close>: the second throws when it is called as the
  third thing that happens on the connection, and returns otherwise.\<close>

definition three_listener_server :: server where
  "three_listener_server =
     bare_server\<lparr>clearedAudioCallbacks :=
       [\<lambda>t a. None,
        \<lambda>t a. if length t = 3 then Some (Thrown ''listener failed'') else None,
        \<lambda>t a. None]\<rparr>"

section \<open>Properties of the model\<close>

lemmas model_defs =
  run_def on_connection_def connection_loop_def settle_def setup_failed_def new_socket_def
  on_message_def on_error_def on_close_def uncaught_def handleIncomingEvent_def
  handleIncomingEvent_try_def handleError_def invoke_def ws_close_def ws_send_def
  parse_def empty_metadata_def

lemmas example_defs =
  toy_JSON_parse_def example_ext_def example_request_def bare_server_def failing_setup_server_def

lemma dispatched_append: "dispatched (t @ u) = dispatched t @ dispatched u"
  by (induction t rule: dispatched.induct) simp_all


lemma forEach_dispatched: "dispatched (snd (forEach k cbs i a t)) = dispatched t"
  by (induction cbs arbitrary: i t) (simp_all add: dispatched_append split: option.splits)

lemma forEach_try_dispatched: "dispatched (forEach_try k cbs i a t) = dispatched t"
  by (induction cbs arbitrary: i t) (simp_all add: dispatched_append split: option.splits)


lemma invoke_control: "control (snd (invoke k cbs a c)) = control c"
  by (simp add: invoke_def control_def split: prod.splits)

lemma invoke_metadata: "metadata (snd (invoke k cbs a c)) = metadata c"
  by (simp add: invoke_def split: prod.splits)

lemma invoke_dispatched: "dispatched (trace (snd (invoke k cbs a c))) = dispatched (trace c)"
  using forEach_dispatched [of k cbs 0 a "trace c"]
  by (auto simp: invoke_def split: prod.splits)


lemma handleError_control: "control (snd (handleError srv e c)) = control c"
  by (simp add: handleError_def invoke_control) (simp add: control_def)

lemma handleError_metadata: "metadata (snd (handleError srv e c)) = metadata c"
  by (simp add: handleError_def invoke_metadata)

lemma handleError_dispatched: "dispatched (trace (snd (handleError srv e c))) = dispatched (trace c)"
  by (simp add: handleError_def invoke_dispatched dispatched_append)


lemma handleIncomingEvent_try_control: "control (snd (handleIncomingEvent_try ext srv data c)) = control c"
  by (simp add: handleIncomingEvent_try_def invoke_control handleError_control split: sum.splits)
     (simp add: control_def)

lemma handleIncomingEvent_try_dispatched:
  "dispatched (trace (snd (handleIncomingEvent_try ext srv data c))) = dispatched (trace c)"
  by (simp add: handleIncomingEvent_try_def invoke_dispatched handleError_dispatched split: sum.splits)

lemma handleIncomingEvent_control: "control (snd (handleIncomingEvent ext srv data c)) = control c"
proof -
  obtain r c' where h: "handleIncomingEvent_try ext srv data (c\<lparr>trace := trace c @ [Dispatch data]\<rparr>) = (r, c')"
    by (cases "handleIncomingEvent_try ext srv data (c\<lparr>trace := trace c @ [Dispatch data]\<rparr>)")
  have "control c' = control (c\<lparr>trace := trace c @ [Dispatch data]\<rparr>)"
    using handleIncomingEvent_try_control [of ext srv data "c\<lparr>trace := trace c @ [Dispatch data]\<rparr>"] h by simp
  then have "control c' = control c" by (simp add: control_def)
  then show ?thesis
    using h by (simp add: handleIncomingEvent_def handleError_control split: option.splits)
qed

lemma handleIncomingEvent_dispatched:
  "dispatched (trace (snd (handleIncomingEvent ext srv data c))) = dispatched (trace c) @ [data]"
proof -
  obtain r c' where h: "handleIncomingEvent_try ext srv data (c\<lparr>trace := trace c @ [Dispatch data]\<rparr>) = (r, c')"
    by (cases "handleIncomingEvent_try ext srv data (c\<lparr>trace := trace c @ [Dispatch data]\<rparr>)")
  have "dispatched (trace c') = dispatched (trace c) @ [data]"
    using handleIncomingEvent_try_dispatched [of ext srv data "c\<lparr>trace := trace c @ [Dispatch data]\<rparr>"] h
    by (simp add: dispatched_append)
  then show ?thesis
    using h by (simp add: handleIncomingEvent_def handleError_dispatched split: option.splits)
qed


lemma replay_control: "control (snd (replay ext srv msgs c)) = control c"
proof (induction msgs arbitrary: c)
  case Nil
  show ?case by simp
next
  case (Cons msg msgs)
  obtain r c' where h: "handleIncomingEvent ext srv msg c = (r, c')"
    by (cases "handleIncomingEvent ext srv msg c")
  have "control c' = control c"
    using handleIncomingEvent_control [of ext srv msg c] h by simp
  then show ?case
    using h Cons.IH [of c'] by (cases r) simp_all
qed


lemma setup_failed_fields:
  "isReady (setup_failed srv e c) = isReady c"
  "listening (setup_failed srv e c) = listening c"
  "awaiting (setup_failed srv e c) = awaiting c"
  "messageBuffer (setup_failed srv e c) = messageBuffer c"
  "metadata (setup_failed srv e c) = metadata c"
  "dispatched (trace (setup_failed srv e c)) = dispatched (trace c)"
  by (simp_all add: setup_failed_def ws_close_def forEach_try_dispatched dispatched_append)

lemma uncaught_fields:
  "control (uncaught r) = control (snd r)"
  "metadata (uncaught r) = metadata (snd r)"
  "dispatched (trace (uncaught r)) = dispatched (trace (snd r))"
  by (cases r; cases "fst r"; simp add: uncaught_def control_def dispatched_append)+

lemma control_fields:
  "control c' = control c \<Longrightarrow> readyState c' = readyState c"
  "control c' = control c \<Longrightarrow> messageBuffer c' = messageBuffer c"
  "control c' = control c \<Longrightarrow> isReady c' = isReady c"
  "control c' = control c \<Longrightarrow> listening c' = listening c"
  "control c' = control c \<Longrightarrow> awaiting c' = awaiting c"
  by (simp_all add: control_def)

lemma on_message_not_ready:
  assumes "\<not> isReady c"
  shows "\<not> isReady (snd (on_message ext srv data c)) \<and>
   listening (snd (on_message ext srv data c)) = listening c \<and>
   awaiting (snd (on_message ext srv data c)) = awaiting c \<and>
   dispatched (trace (snd (on_message ext srv data c))) = dispatched (trace c) \<and>
   messageBuffer (snd (on_message ext srv data c)) = messageBuffer c @ received_json ext [Message data]"
proof (cases "JSON_parse ext data")
  case (Inl e)
  then show ?thesis
    using assms handleError_control [of srv "FailedToParseMessage e" c]
          handleError_dispatched [of srv "FailedToParseMessage e" c]
    by (simp add: on_message_def control_def)
next
  case (Inr j)
  then show ?thesis using assms by (simp add: on_message_def)
qed

lemma step_not_ready:
  assumes "\<not> isReady c" "awaiting c = None"
  shows "\<not> isReady (step ext srv req c ev) \<and> awaiting (step ext srv req c ev) = None \<and>
         dispatched (trace (step ext srv req c ev)) = dispatched (trace c)"
proof (cases ev)
  case (Message data)
  show ?thesis
    using assms on_message_not_ready [OF assms(1), of ext srv data]
          uncaught_fields [of "on_message ext srv data c"]
    by (simp add: Message control_def)
next
  case SocketError
  show ?thesis
    using assms uncaught_fields [of "on_error srv c"] handleError_control [of srv WebSocketErrorOccurred c]
          handleError_dispatched [of srv WebSocketErrorOccurred c]
    by (simp add: SocketError control_def on_error_def)
next
  case SocketClose
  show ?thesis
    using assms uncaught_fields [of "on_close srv (c\<lparr>readyState := CLOSED\<rparr>)"]
          invoke_control [of OnClose "closeCallbacks srv" NoArg "c\<lparr>readyState := CLOSED\<rparr>"]
          invoke_dispatched [of OnClose "closeCallbacks srv" NoArg "c\<lparr>readyState := CLOSED\<rparr>"]
    by (simp add: SocketClose control_def on_close_def)
next
  case Settled
  show ?thesis using assms by (simp add: Settled settle_def)
qed

lemma gate_shut_step: "gate_shut c \<Longrightarrow> gate_shut (step ext srv req c ev)"
  using step_not_ready [of c ext srv req ev] by (simp add: gate_shut_def)

lemma gate_shut_foldl: "gate_shut c \<Longrightarrow> gate_shut (foldl (step ext srv req) c evs)"
  by (induction evs arbitrary: c) (simp_all add: gate_shut_step)



lemma connection_loop_ready:
  assumes "\<not> i < length (connectionCallbacks srv)"
  shows "isReady (connection_loop ext srv req i c) \<and> awaiting (connection_loop ext srv req i c) = None \<and>
         listening (connection_loop ext srv req i c) = listening c"
proof -
  let ?c = "c\<lparr>isReady := True, awaiting := None\<rparr>"
  obtain r c' where h: "replay ext srv (messageBuffer c) ?c = (r, c')"
    by (cases "replay ext srv (messageBuffer c) ?c")
  have "control c' = control ?c"
    using replay_control [of ext srv "messageBuffer c" ?c] h by simp
  then have "isReady c' \<and> awaiting c' = None \<and> listening c' = listening c"
    by (simp add: control_def)
  then show ?thesis
    using assms h by (cases r) (simp_all add: connection_loop_def setup_failed_fields)
qed


lemma connection_loop_waiting:
  assumes "i < length (connectionCallbacks srv)"
  shows "connection_loop ext srv req i c =
         c\<lparr>awaiting := Some i, trace := trace c @ [Call OnConnection i (RequestArg req)]\<rparr>"
  using assms by (simp add: connection_loop_def)


lemma validateConnectionSignature_dispatched:
  "dispatched (snd (validateConnectionSignature ext srv req)) = []"
  by (simp add: validateConnectionSignature_def Let_def split: sum.splits)







lemma paths_ZString: "map issue_path (zissues u ZString p x) = unless (is_string x) p"
  by (cases x rule: is_string.cases) (simp_all add: unless_def)

lemma paths_ZNumber: "map issue_path (zissues u ZNumber p x) = unless (is_number x) p"
  by (cases x rule: is_number.cases) (simp_all add: unless_def)

lemma paths_ZUuid: "map issue_path (zissues u ZUuid p x) = unless (is_uuid_string u x) p"
  by (cases x rule: is_string.cases) (simp_all add: unless_def)

lemma paths_ZLiteral: "map issue_path (zissues u (ZLiteral l) p x) = unless (x = Some (JString l)) p"
  by (cases x rule: is_string.cases) (auto simp: unless_def)

lemma paths_elems: "map issue_path (zissues_elems u ZString p i xs) = bad_elements p i xs"
  by (induction xs arbitrary: i) (simp_all add: bad_elements_def enumerate_simps paths_ZString unless_def del: zissues.simps)

lemma paths_ZArray: "map issue_path (zissues u (ZArray ZString) p x) = bad_strings p x"
  by (cases x rule: is_string_array.cases) (simp_all add: paths_elems)

lemma paths_ZObject:
  "map issue_path (zissues u (ZObject shape) p x) =
     (case x of Some (JObject fs) \<Rightarrow> map issue_path (zissues_fields u shape p fs) | _ \<Rightarrow> [p])"
  by (simp split: option.splits json.splits)

lemmas paths_simps = paths_ZString paths_ZNumber paths_ZUuid paths_ZLiteral paths_ZArray

lemma paths_mediaFormat:
  "map issue_path (zissues u (ZObject [(''encoding'', ZString), (''sampleRate'', ZNumber)]) p x) =
     (if \<not> is_object x then [p]
      else unless (is_string (value_at x [Key ''encoding''])) (p @ [Key ''encoding'']) @
           unless (is_number (value_at x [Key ''sampleRate''])) (p @ [Key ''sampleRate'']))"
  by (cases x rule: is_object.cases) (simp_all add: paths_simps del: zissues.simps add: zissues.simps(6))

lemma paths_StartEventData:
  "map issue_path (zissues u StartEventDataSchema p x) =
     (if \<not> is_object x then [p]
      else
        unless (is_uuid_string u (value_at x [Key ''callId''])) (p @ [Key ''callId'']) @
        unless (is_uuid_string u (value_at x [Key ''streamId''])) (p @ [Key ''streamId'']) @
        unless (is_string (value_at x [Key ''accountId''])) (p @ [Key ''accountId'']) @
        bad_strings (p @ [Key ''tracks'']) (value_at x [Key ''tracks'']) @
        (if \<not> is_object (value_at x [Key ''mediaFormat'']) then [p @ [Key ''mediaFormat'']]
         else
           unless (is_string (value_at x [Key ''mediaFormat'', Key ''encoding'']))
             (p @ [Key ''mediaFormat'', Key ''encoding'']) @
           unless (is_number (value_at x [Key ''mediaFormat'', Key ''sampleRate'']))
             (p @ [Key ''mediaFormat'', Key ''sampleRate''])))"
proof (cases x rule: is_object.cases)
  case (1 fs)
  have m: "value_at (Some (JObject fs)) [Key ''mediaFormat'', Key ''encoding''] =
             value_at (map_of fs ''mediaFormat'') [Key ''encoding'']"
          "value_at (Some (JObject fs)) [Key ''mediaFormat'', Key ''sampleRate''] =
             value_at (map_of fs ''mediaFormat'') [Key ''sampleRate'']"
    by simp_all
  show ?thesis
    unfolding 1 StartEventDataSchema_def m
    by (subst zissues.simps(6)) (simp add: paths_simps paths_mediaFormat del: zissues.simps)
qed (simp_all add: StartEventDataSchema_def)

lemma paths_StartEvent:
  "map issue_path (zissues u StartEventSchema [] (Some (JObject fs))) = start_violations u (JObject fs)"
  unfolding StartEventSchema_def start_violations_def
  by (subst zissues.simps(6)) (simp add: paths_simps paths_StartEventData del: zissues.simps)

lemma value_at_not_object: "\<not> is_object x \<Longrightarrow> value_at x (Key k # p) = None"
  by (cases x rule: is_object.cases) simp_all

lemma bad_elements_empty: "bad_elements p i xs = [] \<longleftrightarrow> list_all (\<lambda>x. is_string (Some x)) xs"
  by (induction xs arbitrary: i) (simp_all add: bad_elements_def enumerate_simps)

lemma bad_strings_empty: "bad_strings p x = [] \<longleftrightarrow> is_string_array x"
  by (cases x rule: is_string_array.cases) (simp_all add: bad_elements_empty)

lemma start_violations_empty:
  assumes "get_prop v ''event'' = Some (JString ''start'')"
  shows "start_violations u v = [] \<longleftrightarrow> start_requirements u v"
proof -
  obtain fs where v: "v = JObject fs" and e: "map_of fs ''event'' = Some (JString ''start'')"
    using assms by (cases v) simp_all
  show ?thesis
  proof (cases "is_object (map_of fs ''start'')")
    case False
    then show ?thesis
      using value_at_not_object [OF False]
      by (simp add: v start_violations_def start_requirements_def)
  next
    case True
    then obtain sfs where s: "map_of fs ''start'' = Some (JObject sfs)"
      by (cases "map_of fs ''start''" rule: is_object.cases) simp_all
    show ?thesis
    proof (cases "is_object (map_of sfs ''mediaFormat'')")
      case False
      then show ?thesis
        using value_at_not_object [OF False]
        by (simp add: v s start_violations_def start_requirements_def)
    next
      case True
      then show ?thesis
        by (auto simp: v e s start_violations_def start_requirements_def unless_def bad_strings_empty)
    qed
  qed
qed

lemma map_of_zoutput_fields:
  "map_of (zoutput_fields shape fs) k =
     (case map_of shape k of None \<Rightarrow> None | Some t \<Rightarrow> map_option (zoutput t) (map_of fs k))"
  by (induction shape) (auto split: option.splits)

lemma zoutput_leaf:
  "map_option (zoutput ZString) x = x" "map_option (zoutput ZNumber) x = x"
  "map_option (zoutput ZUuid) x = x" "map_option (zoutput (ZLiteral l)) x = x"
  by (cases x; simp)+

lemma zoutput_strings: "list_all (\<lambda>x. is_string (Some x)) xs \<Longrightarrow> zoutput_elems ZString xs = xs"
  by (induction xs) simp_all

lemma zoutput_string_array: "is_string_array x \<Longrightarrow> map_option (zoutput (ZArray ZString)) x = x"
  by (cases x rule: is_string_array.cases) (simp_all add: zoutput_strings)

lemma parse_StartEvent:
  "parse ext StartEventSchema v =
     (if zissues (uuid_format ext) StartEventSchema [] (Some v) = []
      then Inr (zoutput StartEventSchema v)
      else Inl (ZodError (zissues (uuid_format ext) StartEventSchema [] (Some v))))"
  by (simp add: parse_def split: list.splits)

lemma zissues_StartEvent_empty:
  assumes "get_prop v ''event'' = Some (JString ''start'')"
  shows "zissues u StartEventSchema [] (Some v) = [] \<longleftrightarrow> start_requirements u v"
proof -
  obtain fs where v: "v = JObject fs"
    using assms by (cases v) simp_all
  have "zissues u StartEventSchema [] (Some v) = [] \<longleftrightarrow>
        map issue_path (zissues u StartEventSchema [] (Some v)) = []"
    by simp
  also have "\<dots> \<longleftrightarrow> start_violations u v = []"
    by (simp only: v paths_StartEvent)
  finally show ?thesis
    using start_violations_empty [OF assms, of u] by simp
qed

lemma is_object_parent:
  "is_uuid_string u (value_at x (Key k # p)) \<Longrightarrow> is_object x"
  "is_string (value_at x (Key k # p)) \<Longrightarrow> is_object x"
  by (cases x rule: is_object.cases; simp)+

text \<open>What a valid start event holds at the places the dispatcher reads, before and
  after the schema has removed the keys it does not name.\<close>

lemma start_requirements_fields:
  assumes "start_requirements u v"
  shows "\<exists>fs sfs. v = JObject fs \<and> map_of fs ''start'' = Some (JObject sfs) \<and>
           is_uuid_string u (map_of sfs ''callId'') \<and> is_uuid_string u (map_of sfs ''streamId'') \<and>
           is_string (map_of sfs ''accountId'') \<and> is_string (map_of fs ''extra_headers'')"
proof -
  have c: "is_uuid_string u (value_at (Some v) [Key ''start'', Key ''callId''])"
    using assms by (simp add: start_requirements_def)
  then obtain fs where v: "v = JObject fs"
    by (cases v) simp_all
  have "is_object (map_of fs ''start'')"
    using c is_object_parent(1) [of u "map_of fs ''start''" "''callId''" "[]"] by (simp add: v)
  then obtain sfs where s: "map_of fs ''start'' = Some (JObject sfs)"
    by (cases "map_of fs ''start''" rule: is_object.cases) simp_all
  show ?thesis
    using assms by (simp add: v s start_requirements_def)
qed

lemma string_at_is_string: "is_string x \<Longrightarrow> \<exists>s. x = Some (JString s)"
  by (cases x rule: is_string.cases) simp_all

lemma string_at_is_uuid: "is_uuid_string u x \<Longrightarrow> \<exists>s. x = Some (JString s) \<and> u s"
  by (cases x rule: is_string.cases) simp_all

lemma start_output_requirements:
  assumes "start_requirements u v"
  shows "start_requirements u (zoutput StartEventSchema v)"
proof -
  obtain fs sfs where v: "v = JObject fs" and s: "map_of fs ''start'' = Some (JObject sfs)"
    using start_requirements_fields [OF assms] by blast
  have m: "is_object (map_of sfs ''mediaFormat'')"
    using assms is_object_parent(2) [of "map_of sfs ''mediaFormat''" "''encoding''" "[]"]
    by (simp add: v s start_requirements_def)
  then obtain mfs where m: "map_of sfs ''mediaFormat'' = Some (JObject mfs)"
    by (cases "map_of sfs ''mediaFormat''" rule: is_object.cases) simp_all
  have t: "is_string_array (map_of sfs ''tracks'')"
    using assms by (simp add: v s start_requirements_def)
  show ?thesis
    using assms zoutput_string_array [OF t]
    by (simp add: v s m start_requirements_def StartEventSchema_def StartEventDataSchema_def
        map_of_zoutput_fields zoutput_leaf del: zoutput.simps(1) zoutput_fields.simps)
qed

lemma latest_start_snoc:
  "latest_start ext (js @ [j]) = (if valid_start ext j then Some j else latest_start ext js)"
  by (induction js) (simp_all split: option.splits)

lemma start_output_strings:
  assumes "start_requirements u v"
  shows "string_at (zoutput StartEventSchema v) [''start'', ''streamId''] = string_at v [''start'', ''streamId'']"
    and "string_at (zoutput StartEventSchema v) [''start'', ''accountId''] = string_at v [''start'', ''accountId'']"
    and "string_at (zoutput StartEventSchema v) [''start'', ''callId''] = string_at v [''start'', ''callId'']"
    and "string_at (zoutput StartEventSchema v) [''extra_headers''] = string_at v [''extra_headers'']"
proof -
  obtain fs sfs where v: "v = JObject fs" and s: "map_of fs ''start'' = Some (JObject sfs)"
    using start_requirements_fields [OF assms] by blast
  show "string_at (zoutput StartEventSchema v) [''start'', ''streamId''] = string_at v [''start'', ''streamId'']"
    and "string_at (zoutput StartEventSchema v) [''start'', ''accountId''] = string_at v [''start'', ''accountId'']"
    and "string_at (zoutput StartEventSchema v) [''start'', ''callId''] = string_at v [''start'', ''callId'']"
    and "string_at (zoutput StartEventSchema v) [''extra_headers''] = string_at v [''extra_headers'']"
    by (simp_all add: v s StartEventSchema_def StartEventDataSchema_def
        map_of_zoutput_fields zoutput_leaf del: zoutput.simps(1) zoutput_fields.simps)
qed

lemma start_metadata_strings:
  assumes "valid_start ext data"
  shows "\<exists>sid acc cid h. start_metadata data =
           \<lparr>streamId = Some sid, accountId = Some acc, callId = Some cid, headers = Some h\<rparr> \<and>
           uuid_format ext sid \<and> uuid_format ext cid"
proof -
  obtain fs sfs where v: "data = JObject fs" and s: "map_of fs ''start'' = Some (JObject sfs)"
    and f: "is_uuid_string (uuid_format ext) (map_of sfs ''callId'')"
           "is_uuid_string (uuid_format ext) (map_of sfs ''streamId'')"
           "is_string (map_of sfs ''accountId'')" "is_string (map_of fs ''extra_headers'')"
    using start_requirements_fields [of "uuid_format ext" data] assms
    by (auto simp: valid_start_def)
  show ?thesis
    using string_at_is_uuid [OF f(1)] string_at_is_uuid [OF f(2)]
          string_at_is_string [OF f(3)] string_at_is_string [OF f(4)]
    by (auto simp: start_metadata_def v s)
qed

lemma handleIncomingEvent_try_metadata:
  "metadata (snd (handleIncomingEvent_try ext srv data c)) =
     (if valid_start ext data then Some (start_metadata data) else metadata c)"
proof (cases "data \<noteq> JNull \<and> get_prop data ''event'' = Some (JString ''start'')")
  case False
  then have "\<not> valid_start ext data"
    by (auto simp: valid_start_def)
  then show ?thesis
    using False
    by (auto simp: handleIncomingEvent_try_def invoke_metadata handleError_metadata split: sum.splits)
next
  case True
  then have e: "get_prop data ''event'' = Some (JString ''start'')" and n: "data \<noteq> JNull"
    by simp_all
  show ?thesis
  proof (cases "start_requirements (uuid_format ext) data")
    case False
    then show ?thesis
      using e n zissues_StartEvent_empty [OF e, of "uuid_format ext"]
      by (simp add: handleIncomingEvent_try_def parse_StartEvent valid_start_def)
  next
    case True
    have m: "\<And>m :: ConnectionMetadata. m\<lparr>streamId := a, accountId := b, callId := d, headers := h\<rparr> =
               \<lparr>streamId = a, accountId = b, callId = d, headers = h\<rparr>" for a b d h
      by simp
    show ?thesis
      using e n True zissues_StartEvent_empty [OF e, of "uuid_format ext"]
      by (simp add: handleIncomingEvent_try_def parse_StartEvent valid_start_def invoke_metadata
          start_output_strings [OF True] start_metadata_def m del: string_at.simps)
  qed
qed

lemma handleIncomingEvent_metadata:
  "metadata (snd (handleIncomingEvent ext srv data c)) =
     (if valid_start ext data then Some (start_metadata data) else metadata c)"
proof -
  let ?c = "c\<lparr>trace := trace c @ [Dispatch data]\<rparr>"
  obtain r c' where h: "handleIncomingEvent_try ext srv data ?c = (r, c')"
    by (cases "handleIncomingEvent_try ext srv data ?c")
  have "metadata c' = (if valid_start ext data then Some (start_metadata data) else metadata c)"
    using handleIncomingEvent_try_metadata [of ext srv data ?c] h by simp
  then show ?thesis
    using h by (cases r) (simp_all add: handleIncomingEvent_def handleError_metadata)
qed

lemma metadata_inv_same:
  assumes "metadata c' = metadata c" "dispatched (trace c') = dispatched (trace c)"
          "listening c' = listening c" "awaiting c' = awaiting c"
  shows "metadata_inv ext c' = metadata_inv ext c"
  using assms by (simp add: metadata_inv_def)

lemma metadata_inv_handleError:
  "metadata_inv ext (snd (handleError srv e c)) = metadata_inv ext c"
  using handleError_control [of srv e c]
  by (intro metadata_inv_same) (simp_all add: handleError_metadata handleError_dispatched control_def)

lemma metadata_inv_invoke:
  "metadata_inv ext (snd (invoke k cbs a c)) = metadata_inv ext c"
  using invoke_control [of k cbs a c]
  by (intro metadata_inv_same) (simp_all add: invoke_metadata invoke_dispatched control_def)

lemma metadata_inv_uncaught: "metadata_inv ext (uncaught r) = metadata_inv ext (snd r)"
  using uncaught_fields(1) [of r]
  by (intro metadata_inv_same) (simp_all add: uncaught_fields control_def)

lemma metadata_inv_setup_failed: "metadata_inv ext (setup_failed srv e c) = metadata_inv ext c"
  by (intro metadata_inv_same) (simp_all add: setup_failed_fields)

lemma metadata_inv_handleIncomingEvent:
  assumes "metadata_inv ext c" "listening c"
  shows "metadata_inv ext (snd (handleIncomingEvent ext srv data c)) \<and>
         listening (snd (handleIncomingEvent ext srv data c))"
  using assms handleIncomingEvent_control [of ext srv data c]
  by (simp add: metadata_inv_def handleIncomingEvent_metadata handleIncomingEvent_dispatched
      latest_start_snoc control_def)

lemma metadata_inv_replay:
  assumes "metadata_inv ext c" "listening c"
  shows "metadata_inv ext (snd (replay ext srv msgs c))"
  using assms
proof (induction msgs arbitrary: c)
  case Nil
  then show ?case by simp
next
  case (Cons msg msgs)
  obtain r c' where h: "handleIncomingEvent ext srv msg c = (r, c')"
    by (cases "handleIncomingEvent ext srv msg c")
  have "metadata_inv ext c' \<and> listening c'"
    using metadata_inv_handleIncomingEvent [OF Cons.prems, of srv msg] h by simp
  then show ?case
    using h Cons.IH [of c'] by (cases r) simp_all
qed

lemma metadata_inv_on_message:
  assumes "metadata_inv ext c" "listening c"
  shows "metadata_inv ext (snd (on_message ext srv data c))"
proof (cases "JSON_parse ext data")
  case (Inl e)
  then show ?thesis
    using assms by (simp add: on_message_def metadata_inv_handleError)
next
  case (Inr j)
  show ?thesis
  proof (cases "isReady c")
    case False
    have "metadata_inv ext (c\<lparr>messageBuffer := messageBuffer c @ [j]\<rparr>) = metadata_inv ext c"
      by (intro metadata_inv_same) simp_all
    then show ?thesis
      using assms Inr False by (simp add: on_message_def)
  next
    case True
    obtain r c' where h: "handleIncomingEvent ext srv j c = (r, c')"
      by (cases "handleIncomingEvent ext srv j c")
    have "metadata_inv ext c'"
      using metadata_inv_handleIncomingEvent [OF assms, of srv j] h by simp
    then show ?thesis
      using Inr True h by (cases r) (simp_all add: on_message_def metadata_inv_handleError)
  qed
qed

lemma metadata_inv_connection_loop:
  assumes "metadata_inv ext c" "listening c"
  shows "metadata_inv ext (connection_loop ext srv req i c) \<and> listening (connection_loop ext srv req i c)"
proof (cases "i < length (connectionCallbacks srv)")
  case True
  have "metadata_inv ext (c\<lparr>awaiting := Some i, trace := trace c @ [Call OnConnection i (RequestArg req)]\<rparr>)"
    using assms by (simp add: metadata_inv_def dispatched_append)
  then show ?thesis
    using True assms by (simp add: connection_loop_waiting)
next
  case False
  let ?c = "c\<lparr>isReady := True, awaiting := None\<rparr>"
  have c: "metadata_inv ext ?c" "listening ?c"
    using assms by (simp_all add: metadata_inv_def)
  obtain r c' where h: "replay ext srv (messageBuffer c) ?c = (r, c')"
    by (cases "replay ext srv (messageBuffer c) ?c")
  have "metadata_inv ext c'"
    using metadata_inv_replay [OF c, of srv "messageBuffer c"] h by simp
  then have "metadata_inv ext (connection_loop ext srv req i c)"
    using False h by (cases r) (simp_all add: connection_loop_def metadata_inv_setup_failed)
  then show ?thesis
    using connection_loop_ready [OF False, of ext req c] assms by simp
qed

lemma metadata_inv_on_connection: "metadata_inv ext (on_connection ext srv req)"
proof -
  obtain v t where h: "(if validateSignatureEnabled srv then validateConnectionSignature ext srv req
            else (True, [])) = (v, t)"
    by (cases "(if validateSignatureEnabled srv then validateConnectionSignature ext srv req
            else (True, []))")
  have t: "dispatched t = []"
    using h validateConnectionSignature_dispatched [of ext srv req]
    by (cases "validateSignatureEnabled srv") auto
  show ?thesis
  proof (cases v)
    case True
    let ?c = "new_socket\<lparr>metadata := Some empty_metadata, listening := True, trace := t\<rparr>"
    have "metadata_inv ext ?c" "listening ?c"
      using t by (simp_all add: metadata_inv_def)
    then show ?thesis
      using h True metadata_inv_connection_loop [of ext ?c srv req 0] by (simp add: on_connection_def)
  next
    case False
    then show ?thesis
      using h by (simp add: on_connection_def new_socket_def ws_close_def metadata_inv_def)
  qed
qed

lemma metadata_inv_step:
  assumes "metadata_inv ext c"
  shows "metadata_inv ext (step ext srv req c ev)"
proof (cases "listening c")
  case False
  then have "awaiting c = None"
    using assms by (simp add: metadata_inv_def)
  then show ?thesis
    using assms False by (cases ev) (simp_all add: settle_def metadata_inv_def)
next
  case True
  show ?thesis
  proof (cases ev)
    case (Message data)
    then show ?thesis
      using True metadata_inv_on_message [OF assms True, of srv data]
      by (simp add: metadata_inv_uncaught)
  next
    case SocketError
    then show ?thesis
      using True assms by (simp add: metadata_inv_uncaught on_error_def metadata_inv_handleError)
  next
    case SocketClose
    have "metadata_inv ext (c\<lparr>readyState := CLOSED\<rparr>) = metadata_inv ext c"
      by (intro metadata_inv_same) simp_all
    then show ?thesis
      using True assms SocketClose by (simp add: metadata_inv_uncaught on_close_def metadata_inv_invoke)
  next
    case Settled
    have "metadata_inv ext (c\<lparr>awaiting := None\<rparr>)"
      using assms True by (simp add: metadata_inv_def)
    then show ?thesis
      using Settled assms True metadata_inv_connection_loop [OF assms True, of srv req]
      by (simp add: settle_def metadata_inv_setup_failed split: option.splits)
  qed
qed

lemma metadata_inv_foldl: "metadata_inv ext c \<Longrightarrow> metadata_inv ext (foldl (step ext srv req) c evs)"
  by (induction evs arbitrary: c) (simp_all add: metadata_inv_step)

lemma metadata_inv_run: "metadata_inv ext (run ext srv req evs)"
  by (simp add: run_def metadata_inv_foldl metadata_inv_on_connection)

lemma latest_start_None: "latest_start ext js = None \<longleftrightarrow> (\<forall>j \<in> set js. \<not> valid_start ext j)"
  by (induction js) (auto split: option.splits)

lemma latest_start_valid: "latest_start ext js = Some j \<Longrightarrow> valid_start ext j"
  by (induction js) (auto split: option.splits if_splits)

lemma rejected_gate_shut:
  assumes "validateSignatureEnabled srv" "\<not> fst (validateConnectionSignature ext srv req)"
  shows "gate_shut (run ext srv req evs)"
proof -
  have "gate_shut (on_connection ext srv req)"
    using assms validateConnectionSignature_dispatched [of ext srv req]
    by (cases "validateConnectionSignature ext srv req")
       (simp add: on_connection_def gate_shut_def ws_close_def new_socket_def dispatched_append)
  then show ?thesis
    by (simp add: run_def gate_shut_foldl)
qed

lemma getters_no_start:
  assumes "\<forall>j \<in> set (dispatched (trace (run ext srv req evs))). \<not> valid_start ext j"
  shows "getStreamId (run ext srv req evs) = None \<and> getAccountId (run ext srv req evs) = None \<and>
         getCallId (run ext srv req evs) = None \<and> getHeaders (run ext srv req evs) = None"
proof -
  have "latest_start ext (dispatched (trace (run ext srv req evs))) = None"
    using assms by (simp add: latest_start_None)
  then show ?thesis
    using metadata_inv_run [of ext srv req evs]
    by (cases "listening (run ext srv req evs)")
       (simp_all add: metadata_inv_def getStreamId_def getAccountId_def getCallId_def getHeaders_def
          empty_metadata_def)
qed

lemma streamId_run:
  assumes "getStreamId (run ext srv req evs) = Some sid"
  shows "uuid_format ext sid"
proof -
  let ?c = "run ext srv req evs"
  have l: "listening ?c"
    using assms metadata_inv_run [of ext srv req evs]
    by (cases "listening ?c") (simp_all add: metadata_inv_def getStreamId_def)
  show ?thesis
  proof (cases "latest_start ext (dispatched (trace ?c))")
    case None
    then show ?thesis
      using assms l metadata_inv_run [of ext srv req evs]
      by (simp add: metadata_inv_def getStreamId_def empty_metadata_def)
  next
    case (Some j)
    then have "valid_start ext j" by (rule latest_start_valid)
    then obtain s a d h where "start_metadata j =
        \<lparr>streamId = Some s, accountId = Some a, callId = Some d, headers = Some h\<rparr>" "uuid_format ext s"
      using start_metadata_strings [of ext j] by blast
    then show ?thesis
      using assms l Some metadata_inv_run [of ext srv req evs]
      by (simp add: metadata_inv_def getStreamId_def)
  qed
qed

lemmas more_example_defs =
  example_start_def after_first_start_def after_second_start_def signing_server_def
  StartEventSchema_def StartEventDataSchema_def








lemma forEach_all_return:
  assumes "\<forall>cb \<in> set cbs. \<forall>t. cb t a = None"
  shows "forEach k cbs n a t = (None, t @ map (\<lambda>m. Call k m a) [n..<n + length cbs])"
  using assms
proof (induction cbs arbitrary: n t)
  case Nil
  show ?case by simp
next
  case (Cons cb cbs)
  have "[n..<n + length (cb # cbs)] = n # [Suc n..<Suc n + length cbs]"
    by (simp add: upt_rec)
  then show ?case
    using Cons.prems Cons.IH [of "Suc n" "t @ [Call k n a]"] by simp
qed

lemma forEach_throw:
  assumes "\<forall>cb' \<in> set pre. \<forall>t. cb' t a = None" "\<forall>t. cb t a = Some e"
  shows "forEach k (pre @ cb # post) n a t = (Some e, t @ map (\<lambda>m. Call k m a) [n..<n + Suc (length pre)])"
  using assms(1)
proof (induction pre arbitrary: n t)
  case Nil
  show ?case using assms(2) by simp
next
  case (Cons x pre)
  have "[n..<n + Suc (length (x # pre))] = n # [Suc n..<Suc n + Suc (length pre)]"
    by (simp add: upt_rec)
  then show ?case
    using Cons.prems Cons.IH [of "Suc n" "t @ [Call k n a]"] by simp
qed

lemma handleError_report:
  assumes "never_throws (errorCallbacks srv)"
  shows "handleError srv e c = (None, c\<lparr>trace := trace c @ error_report srv e\<rparr>)"
proof (cases "errorCallbacks srv = []")
  case True
  then show ?thesis by (simp add: handleError_def error_report_def)
next
  case False
  have "\<forall>cb \<in> set (errorCallbacks srv). \<forall>t. cb t (ErrorArg e) = None"
    using assms by (simp add: never_throws_def)
  then show ?thesis
    using False forEach_all_return [of "errorCallbacks srv" "ErrorArg e" OnError 0 "trace c"]
    by (simp add: handleError_def invoke_def error_report_def)
qed

lemma handleIncomingEvent_try_routed:
  assumes "get_prop data ''event'' = Some (JString kind)" "route srv kind = Some (s, k, cbs)"
          "parse ext s data = Inr ev"
  shows "\<exists>m. handleIncomingEvent_try ext srv data c = invoke k cbs (EventArg ev) (c\<lparr>metadata := m\<rparr>)"
proof -
  have n: "data \<noteq> JNull"
    using assms(1) by auto
  have same: "c\<lparr>metadata := metadata c\<rparr> = c"
    by simp
  consider "kind = ''start''" | "kind = ''media''" | "kind = ''dtmf''" | "kind = ''playedStream''"
    | "kind = ''clearedAudio''"
    using assms(2) by (auto simp: route_def split: if_splits)
  then show ?thesis
  proof cases
    case 1
    then show ?thesis
      using assms n by (auto simp: route_def handleIncomingEvent_try_def)
  next
    case 2
    then have "handleIncomingEvent_try ext srv data c = invoke k cbs (EventArg ev) (c\<lparr>metadata := metadata c\<rparr>)"
      using assms n by (auto simp: route_def handleIncomingEvent_try_def)
    then show ?thesis by blast
  next
    case 3
    then have "handleIncomingEvent_try ext srv data c = invoke k cbs (EventArg ev) (c\<lparr>metadata := metadata c\<rparr>)"
      using assms n by (auto simp: route_def handleIncomingEvent_try_def)
    then show ?thesis by blast
  next
    case 4
    then have "handleIncomingEvent_try ext srv data c = invoke k cbs (EventArg ev) (c\<lparr>metadata := metadata c\<rparr>)"
      using assms n by (auto simp: route_def handleIncomingEvent_try_def)
    then show ?thesis by blast
  next
    case 5
    then have "handleIncomingEvent_try ext srv data c = invoke k cbs (EventArg ev) (c\<lparr>metadata := metadata c\<rparr>)"
      using assms n by (auto simp: route_def handleIncomingEvent_try_def)
    then show ?thesis by blast
  qed
qed

lemma byte_in_all_bytes: "(a :: byte) \<in> set all_bytes"
proof -
  have "unat a < 256"
    using unsigned_less [of a] by simp
  then have "(of_nat (unat a) :: byte) \<in> of_nat ` set [0..<256]"
    by (intro imageI) simp
  then show ?thesis
    by (simp add: all_bytes_def)
qed

lemma sextet_table:
  "\<forall>s \<in> set all_bytes. drop_bit 6 s = 0 \<longrightarrow>
     unbase64 (base64_char s) = Some s \<and> base64_char s \<noteq> CHR ''=''"
  by code_simp

lemma sextet_facts_table:
  "\<forall>a \<in> set all_bytes.
     drop_bit 6 (drop_bit 2 a) = 0 \<and>
     drop_bit 6 (push_bit 4 (a AND 3)) = 0 \<and>
     drop_bit 6 (drop_bit 4 a) = 0 \<and>
     drop_bit 6 (push_bit 2 (a AND 15)) = 0 \<and>
     drop_bit 6 (drop_bit 6 a) = 0 \<and>
     drop_bit 6 (a AND 63) = 0"
  by code_simp

lemma byte_facts_table:
  "\<forall>a \<in> set all_bytes.
     push_bit 2 (drop_bit 2 a) OR drop_bit 4 (push_bit 4 (a AND 3)) = a \<and>
     drop_bit 4 (drop_bit 4 a) = 0 \<and>
     push_bit 4 (push_bit 4 (a AND 3)) = 0 \<and>
     push_bit 4 (drop_bit 4 a) OR drop_bit 2 (push_bit 2 (a AND 15)) = a \<and>
     drop_bit 2 (drop_bit 6 a) = 0 \<and>
     push_bit 6 (push_bit 2 (a AND 15)) = 0 \<and>
     push_bit 6 (drop_bit 6 a) OR (a AND 63) = a"
  by code_simp

lemma sextet_char:
  fixes s :: byte
  assumes "drop_bit 6 s = 0"
  shows "sextets (base64_char s # cs) = s # sextets cs"
  using assms sextet_table byte_in_all_bytes [of s] by simp

lemma sextet_facts:
  fixes a b :: byte
  shows "drop_bit 6 (drop_bit 2 a) = 0"
    and "drop_bit 6 (push_bit 4 (a AND 3)) = 0"
    and "drop_bit 6 (push_bit 4 (a AND 3) OR drop_bit 4 b) = 0"
    and "drop_bit 6 (push_bit 2 (a AND 15)) = 0"
    and "drop_bit 6 (push_bit 2 (a AND 15) OR drop_bit 6 b) = 0"
    and "drop_bit 6 (a AND 63) = 0"
  using sextet_facts_table byte_in_all_bytes [of a] byte_in_all_bytes [of b]
  by (simp_all only: drop_bit_or) auto

lemma byte_facts:
  fixes a b c :: byte
  shows "push_bit 2 (drop_bit 2 a) OR drop_bit 4 (push_bit 4 (a AND 3)) = a"
    and "push_bit 2 (drop_bit 2 a) OR drop_bit 4 (push_bit 4 (a AND 3) OR drop_bit 4 b) = a"
    and "push_bit 4 (push_bit 4 (a AND 3) OR drop_bit 4 b) OR drop_bit 2 (push_bit 2 (b AND 15)) = b"
    and "push_bit 4 (push_bit 4 (a AND 3) OR drop_bit 4 b) OR
         drop_bit 2 (push_bit 2 (b AND 15) OR drop_bit 6 c) = b"
    and "push_bit 6 (push_bit 2 (b AND 15) OR drop_bit 6 c) OR (c AND 63) = c"
  using byte_facts_table byte_in_all_bytes [of a] byte_in_all_bytes [of b] byte_in_all_bytes [of c]
  by (simp_all only: drop_bit_or push_bit_or) auto

lemma sextets_pad: "sextets (CHR ''='' # cs) = []"
  by simp

lemma base64_round_trip: "base64_decode (base64_encode bs) = bs"
  unfolding base64_decode_def
proof (induction bs rule: base64_encode.induct)
  case (1 a b c r)
  then show ?case
    by (simp only: base64_encode.simps sextet_char sextet_facts group_bytes.simps byte_facts)
next
  case (2 a b)
  show ?case
    by (simp only: base64_encode.simps sextet_char sextet_facts sextets_pad group_bytes.simps byte_facts)
next
  case (3 a)
  show ?case
    by (simp only: base64_encode.simps sextet_char sextet_facts sextets_pad group_bytes.simps byte_facts)
next
  case 4
  show ?case by simp
qed

lemma forEach_throw_at:
  assumes "\<forall>j < length pre. (pre ! j) (t @ map (\<lambda>m. Call k m a) [n..<n + Suc j]) a = None"
      and "cb (t @ map (\<lambda>m. Call k m a) [n..<n + Suc (length pre)]) a = Some e"
  shows "forEach k (pre @ cb # post) n a t =
           (Some e, t @ map (\<lambda>m. Call k m a) [n..<n + Suc (length pre)])"
  using assms
proof (induction pre arbitrary: n t)
  case Nil
  then show ?case by simp
next
  case (Cons x pre)
  have u: "[n..<n + Suc (Suc j)] = n # [Suc n..<Suc n + Suc j]" for j
    by (simp add: upt_rec)
  have x: "x (t @ [Call k n a]) a = None"
    using Cons.prems(1) [rule_format, of 0] by simp
  have p: "\<forall>j < length pre. (pre ! j) ((t @ [Call k n a]) @ map (\<lambda>m. Call k m a) [Suc n..<Suc n + Suc j]) a = None"
  proof (intro allI impI)
    fix j
    assume "j < length pre"
    then have "Suc j < length (x # pre)" by simp
    then show "(pre ! j) ((t @ [Call k n a]) @ map (\<lambda>m. Call k m a) [Suc n..<Suc n + Suc j]) a = None"
      using Cons.prems(1) [rule_format, of "Suc j", unfolded u] by simp
  qed
  have c: "cb ((t @ [Call k n a]) @ map (\<lambda>m. Call k m a) [Suc n..<Suc n + Suc (length pre)]) a = Some e"
    using Cons.prems(2) [unfolded length_Cons u] by simp
  show ?case
    unfolding length_Cons u
    using x Cons.IH [OF p c] by simp
qed

lemma forEach_reports:
  "\<exists>rest. snd (forEach OnError cbs n (ErrorArg e) t) = t @ rest \<and> list_all (reports e) rest"
proof (induction cbs arbitrary: n t)
  case Nil
  show ?case by simp
next
  case (Cons cb cbs)
  obtain rest where r: "snd (forEach OnError cbs (Suc n) (ErrorArg e) (t @ [Call OnError n (ErrorArg e)])) =
      (t @ [Call OnError n (ErrorArg e)]) @ rest" "list_all (reports e) rest"
    using Cons.IH [of "Suc n" "t @ [Call OnError n (ErrorArg e)]"] by blast
  show ?case
  proof (cases "cb (t @ [Call OnError n (ErrorArg e)]) (ErrorArg e)")
    case None
    then have "snd (forEach OnError (cb # cbs) n (ErrorArg e) t) = t @ (Call OnError n (ErrorArg e) # rest)"
      using r(1) by simp
    moreover have "list_all (reports e) (Call OnError n (ErrorArg e) # rest)"
      using r(2) by simp
    ultimately show ?thesis by blast
  next
    case (Some x)
    then have "snd (forEach OnError (cb # cbs) n (ErrorArg e) t) = t @ [Call OnError n (ErrorArg e)]"
      by simp
    moreover have "list_all (reports e) [Call OnError n (ErrorArg e)]"
      by simp
    ultimately show ?thesis by blast
  qed
qed

lemma handleError_reports:
  "\<exists>rest. trace (snd (handleError srv e c)) = trace c @ rest \<and> list_all (reports e) rest"
proof (cases "errorCallbacks srv = []")
  case True
  have "list_all (reports e) [ConsoleError ''[PlivoWebSocketServer] Error:'' (Some e)]"
    by simp
  then show ?thesis
    using True by (simp add: handleError_def)
next
  case False
  obtain rest where "snd (forEach OnError (errorCallbacks srv) 0 (ErrorArg e) (trace c)) = trace c @ rest"
      "list_all (reports e) rest"
    using forEach_reports [of "errorCallbacks srv" 0 e "trace c"] by blast
  then show ?thesis
    using False by (auto simp: handleError_def invoke_def split: prod.splits)
qed



section \<open>The properties of the specification\<close>




text \<open>
  C2, as the code has it. The four metadata fields are written by every start event that
  passes validation, with the values of that event, so a later valid start event
  replaces what an earlier one wrote; a value that is no valid start event leaves the
  metadata as it is. At every moment an accepted connection holds the values of the
  last valid start event dispatched so far, and the empty record before the first.
\<close>

theorem start_event_writes_metadata:
  "metadata (snd (handleIncomingEvent ext srv data c)) =
     (if valid_start ext data then Some (start_metadata data) else metadata c) \<and>
   (valid_start ext data \<longrightarrow>
      (\<exists>sid acc cid h. start_metadata data =
         \<lparr>streamId = Some sid, accountId = Some acc, callId = Some cid, headers = Some h\<rparr>)) \<and>
   (listening (run ext srv req evs) \<longrightarrow>
      metadata (run ext srv req evs) =
        Some (case latest_start ext (dispatched (trace (run ext srv req evs))) of
                None \<Rightarrow> empty_metadata
              | Some j \<Rightarrow> start_metadata j))"
  using handleIncomingEvent_metadata [of ext srv data c] start_metadata_strings [of ext data]
        metadata_inv_run [of ext srv req evs]
  by (auto simp: metadata_inv_def)

theorem start_event_writes_metadata_witness:
  "valid_start example_ext (example_start ''22222222-aaaa-4bbb-8ccc-000000000002'' 8000) \<and>
   metadata after_second_start =
     Some \<lparr>streamId = Some ''22222222-aaaa-4bbb-8ccc-000000000002'', accountId = Some ''MA123'',
           callId = Some ''9f1c2b7e-3d4a-4e5f-8a6b-7c8d9e0f1a2b'', headers = Some ''a=b''\<rparr> \<and>
   \<not> valid_start example_ext JNull \<and>
   metadata (snd (handleIncomingEvent example_ext bare_server JNull after_second_start)) =
     metadata after_second_start \<and>
   listening (run example_ext bare_server example_request [Message ''{}'']) \<and>
   metadata (run example_ext bare_server example_request [Message ''{}'']) = Some empty_metadata"
proof -
  let ?s = "example_start ''22222222-aaaa-4bbb-8ccc-000000000002'' 8000"
  let ?r = "run example_ext bare_server example_request [Message ''{}'']"
  have v: "valid_start example_ext ?s"
    by (simp add: valid_start_def start_requirements_def example_start_def example_ext_def)
  have n: "\<not> valid_start example_ext JNull"
    by (simp add: valid_start_def)
  have m: "start_metadata ?s =
     \<lparr>streamId = Some ''22222222-aaaa-4bbb-8ccc-000000000002'', accountId = Some ''MA123'',
       callId = Some ''9f1c2b7e-3d4a-4e5f-8a6b-7c8d9e0f1a2b'', headers = Some ''a=b''\<rparr>"
    by (simp add: start_metadata_def example_start_def)
  have l: "listening ?r"
    by (simp add: model_defs example_defs)
  have d: "dispatched (trace ?r) = [JObject []]"
    by (simp add: model_defs example_defs)
  have e: "\<not> valid_start example_ext (JObject [])"
    by (simp add: valid_start_def)
  show ?thesis
    using start_event_writes_metadata [of example_ext bare_server ?s after_first_start example_request "[Message ''{}'']"]
          start_event_writes_metadata [of example_ext bare_server JNull after_second_start example_request "[Message ''{}'']"]
          v n m l d e
    by (simp add: after_second_start_def)
qed

text \<open>
  C2 as stated fails: a second valid start event changes the stream identifier the
  first one wrote.
\<close>

theorem start_event_writes_metadata_counterexample:
  "getStreamId after_first_start = Some ''11111111-aaaa-4bbb-8ccc-000000000001'' \<and>
   getStreamId after_second_start = Some ''22222222-aaaa-4bbb-8ccc-000000000002''"
  by (simp add: getStreamId_def model_defs example_defs more_example_defs)



text \<open>
  C4, as the code has it. When a listener of a dispatched event throws, whatever the
  error listeners do: the listeners registered before it have run, the listeners
  registered after it are not called for that event, and the exception is caught once,
  by the dispatcher, and handed to the error path as \<open>FailedToHandleEvent\<close>, so that
  all that happens after the failing call is the report of that error; the ready flag,
  the buffer and the socket stay as they were. When the error listeners return normally
  the dispatcher returns normally, so the next message is processed as usual.
\<close>

theorem listener_failure_ends_dispatch:
  assumes "get_prop data ''event'' = Some (JString kind)"
      and "route srv kind = Some (s, k, pre @ cb # post)"
      and "parse ext s data = Inr ev"
      and "\<forall>j < length pre.
             (pre ! j) (trace c @ Dispatch data # map (\<lambda>n. Call k n (EventArg ev)) [0..<Suc j])
               (EventArg ev) = None"
      and "cb (trace c @ Dispatch data # map (\<lambda>n. Call k n (EventArg ev)) [0..<Suc (length pre)])
             (EventArg ev) = Some e"
  shows "(\<exists>m. handleIncomingEvent ext srv data c =
            handleError srv (FailedToHandleEvent e)
              (c\<lparr>metadata := m,
                 trace := trace c @ Dispatch data #
                   map (\<lambda>n. Call k n (EventArg ev)) [0..<Suc (length pre)]\<rparr>)) \<and>
         (\<exists>rest. trace (snd (handleIncomingEvent ext srv data c)) =
            trace c @ Dispatch data # map (\<lambda>n. Call k n (EventArg ev)) [0..<Suc (length pre)] @ rest \<and>
            list_all (reports (FailedToHandleEvent e)) rest) \<and>
         control (snd (handleIncomingEvent ext srv data c)) = control c \<and>
         (never_throws (errorCallbacks srv) \<longrightarrow>
            fst (handleIncomingEvent ext srv data c) = None \<and>
            trace (snd (handleIncomingEvent ext srv data c)) =
              trace c @ Dispatch data # map (\<lambda>n. Call k n (EventArg ev)) [0..<Suc (length pre)] @
              error_report srv (FailedToHandleEvent e))"
proof -
  let ?c = "c\<lparr>trace := trace c @ [Dispatch data]\<rparr>"
  let ?calls = "map (\<lambda>n. Call k n (EventArg ev)) [0..<Suc (length pre)]"
  obtain m where m: "handleIncomingEvent_try ext srv data ?c =
      invoke k (pre @ cb # post) (EventArg ev) (?c\<lparr>metadata := m\<rparr>)"
    using handleIncomingEvent_try_routed [OF assms(1-3), of ?c] by blast
  have f: "forEach k (pre @ cb # post) 0 (EventArg ev) (trace c @ [Dispatch data]) =
             (Some e, (trace c @ [Dispatch data]) @ map (\<lambda>n. Call k n (EventArg ev)) [0..<0 + Suc (length pre)])"
    using assms(4,5) by (intro forEach_throw_at) simp_all
  have t: "handleIncomingEvent_try ext srv data ?c =
      (Some e, c\<lparr>metadata := m, trace := trace c @ Dispatch data # ?calls\<rparr>)"
    using f by (simp add: m invoke_def)
  let ?d = "c\<lparr>metadata := m, trace := trace c @ Dispatch data # ?calls\<rparr>"
  have h: "handleIncomingEvent ext srv data c = handleError srv (FailedToHandleEvent e) ?d"
    by (simp add: handleIncomingEvent_def t)
  obtain rest where rest: "trace (snd (handleError srv (FailedToHandleEvent e) ?d)) = trace ?d @ rest"
      "list_all (reports (FailedToHandleEvent e)) rest"
    using handleError_reports [of srv "FailedToHandleEvent e" ?d] by blast
  have one: "\<exists>m. handleIncomingEvent ext srv data c =
            handleError srv (FailedToHandleEvent e)
              (c\<lparr>metadata := m, trace := trace c @ Dispatch data # ?calls\<rparr>)"
    using h by blast
  have two: "\<exists>rest. trace (snd (handleIncomingEvent ext srv data c)) =
            trace c @ Dispatch data # ?calls @ rest \<and>
            list_all (reports (FailedToHandleEvent e)) rest"
    using rest by (auto simp: h)
  have three: "control (snd (handleIncomingEvent ext srv data c)) = control c"
    by (rule handleIncomingEvent_control)
  have four: "never_throws (errorCallbacks srv) \<longrightarrow>
            fst (handleIncomingEvent ext srv data c) = None \<and>
            trace (snd (handleIncomingEvent ext srv data c)) =
              trace c @ Dispatch data # ?calls @ error_report srv (FailedToHandleEvent e)"
    by (simp add: h handleError_report)
  show ?thesis
    using one two three four by blast
qed

theorem listener_failure_ends_dispatch_witness:
  "get_prop example_cleared ''event'' = Some (JString ''clearedAudio'') \<and>
   route three_listener_server ''clearedAudio'' =
     Some (ClearedAudioEventSchema, OnClearedAudio,
           [\<lambda>t a. None] @
           (\<lambda>t a. if length t = 3 then Some (Thrown ''listener failed'') else None) # [\<lambda>t a. None]) \<and>
   parse example_ext ClearedAudioEventSchema example_cleared = Inr example_cleared \<and>
   never_throws (errorCallbacks three_listener_server) \<and>
   fst (handleIncomingEvent example_ext three_listener_server example_cleared new_socket) = None \<and>
   trace (snd (handleIncomingEvent example_ext three_listener_server example_cleared new_socket)) =
     [Dispatch example_cleared,
      Call OnClearedAudio 0 (EventArg example_cleared),
      Call OnClearedAudio 1 (EventArg example_cleared),
      ConsoleError ''[PlivoWebSocketServer] Error:'' (Some (FailedToHandleEvent (Thrown ''listener failed'')))] \<and>
   control (snd (handleIncomingEvent example_ext three_listener_server example_cleared new_socket)) =
     control new_socket"
proof -
  let ?flaky = "\<lambda>(t :: effect list) (a :: arg). if length t = 3 then Some (Thrown ''listener failed'') else None"
  let ?quiet = "\<lambda>(t :: effect list) (a :: arg). None :: err option"
  have a: "get_prop example_cleared ''event'' = Some (JString ''clearedAudio'')"
    by (simp add: example_cleared_def)
  have b: "route three_listener_server ''clearedAudio'' =
     Some (ClearedAudioEventSchema, OnClearedAudio, [?quiet] @ ?flaky # [?quiet])"
    by (simp add: route_def three_listener_server_def bare_server_def)
  have c: "parse example_ext ClearedAudioEventSchema example_cleared = Inr example_cleared"
    by (simp add: parse_def example_cleared_def ClearedAudioEventSchema_def example_ext_def)
  have d: "\<forall>j < length [?quiet].
             ([?quiet] ! j) (trace new_socket @ Dispatch example_cleared #
                map (\<lambda>n. Call OnClearedAudio n (EventArg example_cleared)) [0..<Suc j])
               (EventArg example_cleared) = None"
    by simp
  have e: "?flaky (trace new_socket @ Dispatch example_cleared #
                map (\<lambda>n. Call OnClearedAudio n (EventArg example_cleared)) [0..<Suc (length [?quiet])])
             (EventArg example_cleared) = Some (Thrown ''listener failed'')"
    by (simp add: new_socket_def)
  have f: "never_throws (errorCallbacks three_listener_server)"
    by (simp add: never_throws_def three_listener_server_def bare_server_def)
  have g: "error_report three_listener_server (FailedToHandleEvent (Thrown ''listener failed'')) =
     [ConsoleError ''[PlivoWebSocketServer] Error:'' (Some (FailedToHandleEvent (Thrown ''listener failed'')))]"
    by (simp add: error_report_def three_listener_server_def bare_server_def)
  have h: "trace new_socket = []"
    by (simp add: new_socket_def)
  have u: "[0..<Suc (length [?quiet])] = [0, 1]"
    by (simp add: upt_rec)
  show ?thesis
    using listener_failure_ends_dispatch [OF a b c d e] a b c f g h u
    by simp
qed

text \<open>
  C4 as stated fails: of two listeners registered for \<open>clearedAudio\<close>, the first throws
  and the second is never called for that event.
\<close>

theorem listener_failure_ends_dispatch_counterexample:
  "trace (snd (handleIncomingEvent example_ext two_listener_server example_cleared new_socket)) =
     [Dispatch example_cleared, Call OnClearedAudio 0 (EventArg example_cleared),
      ConsoleError ''[PlivoWebSocketServer] Error:'' (Some (FailedToHandleEvent (Thrown ''listener failed'')))]"
  by (simp add: model_defs example_defs example_cleared_def two_listener_server_def
      ClearedAudioEventSchema_def)

text \<open>
  C5 fails when an error listener throws: a buffered value with no \<open>event\<close> is replayed,
  the error listener throws on the report, the exception leaves the dispatcher and the
  replay loop, and the connection handler closes the socket with code 1011; the value
  received after it is never dispatched although the connection is ready.
\<close>

theorem malformed_message_closes_connection:
  "trace (run example_ext throwing_error_server example_request [Message ''{}'', Message ''[]'', Settled]) =
     [Call OnConnection 0 (RequestArg example_request),
      Dispatch (JObject []),
      Call OnError 0 (ErrorArg (UnknownEventType None)),
      Call OnError 0 (ErrorArg (FailedToHandleEvent (Thrown ''error listener failed''))),
      ConsoleError ''[PlivoWebSocketServer] Connection setup failed:'' (Some (Thrown ''error listener failed'')),
      Call OnError 0 (ErrorArg (Thrown ''error listener failed'')),
      Call OnError 1 (ErrorArg (Thrown ''error listener failed'')),
      WsClose 1011 ''Connection setup failed''] \<and>
   readyState (run example_ext throwing_error_server example_request [Message ''{}'', Message ''[]'', Settled]) = CLOSING \<and>
   isReady (run example_ext throwing_error_server example_request [Message ''{}'', Message ''[]'', Settled])"
  by (simp add: model_defs example_defs throwing_error_server_def)

text \<open>
  C6. \<open>checkpoint\<close> and \<open>clearAudio\<close> throw the error that says the socket is not
  connected when it is not open, and the error that says the stream identifier is not
  available when the socket is open and the metadata holds none; with an open socket and
  a stored stream identifier they send one message, \<open>{event, streamId, name}\<close> and
  \<open>{event, streamId}\<close>, with the stored identifier. A stored identifier is never the empty
  string when the identifier format refuses the empty string, and none is stored while
  no valid start event has been dispatched.
\<close>

theorem outbound_command_preconditions:
  "(readyState c \<noteq> OPEN \<longrightarrow>
      checkpoint c name = (Some WebSocketNotConnected, c) \<and>
      clearAudio c = (Some WebSocketNotConnected, c)) \<and>
   (readyState c = OPEN \<and> getStreamId c = None \<longrightarrow>
      checkpoint c name = (Some StreamIdNotAvailable, c) \<and>
      clearAudio c = (Some StreamIdNotAvailable, c)) \<and>
   (readyState c = OPEN \<and> getStreamId c = Some sid \<and> sid \<noteq> [] \<longrightarrow>
      checkpoint c name =
        (None, c\<lparr>trace := trace c @
           [WsSend (JObject [(''event'', JString ''checkpoint''), (''streamId'', JString sid),
                             (''name'', JString name)])]\<rparr>) \<and>
      clearAudio c =
        (None, c\<lparr>trace := trace c @
           [WsSend (JObject [(''event'', JString ''clearAudio''), (''streamId'', JString sid)])]\<rparr>)) \<and>
   (\<not> uuid_format ext [] \<longrightarrow> getStreamId (run ext srv req evs) \<noteq> Some []) \<and>
   ((\<forall>j \<in> set (dispatched (trace (run ext srv req evs))). \<not> valid_start ext j) \<longrightarrow>
      getStreamId (run ext srv req evs) = None)"
proof -
  have "\<not> uuid_format ext [] \<longrightarrow> getStreamId (run ext srv req evs) \<noteq> Some []"
    using streamId_run [of ext srv req evs "[]"] by blast
  moreover have "(\<forall>j \<in> set (dispatched (trace (run ext srv req evs))). \<not> valid_start ext j) \<longrightarrow>
      getStreamId (run ext srv req evs) = None"
    using getters_no_start [of ext srv req evs] by blast
  ultimately show ?thesis
    by (simp add: checkpoint_def clearAudio_def stored_streamId_def getStreamId_def truthy_def ws_send_def)
qed

theorem outbound_command_preconditions_witness:
  "readyState (after_first_start\<lparr>readyState := CLOSED\<rparr>) \<noteq> OPEN \<and>
   checkpoint (after_first_start\<lparr>readyState := CLOSED\<rparr>) ''mark'' =
     (Some WebSocketNotConnected, after_first_start\<lparr>readyState := CLOSED\<rparr>) \<and>
   readyState (on_connection example_ext bare_server example_request) = OPEN \<and>
   getStreamId (on_connection example_ext bare_server example_request) = None \<and>
   clearAudio (on_connection example_ext bare_server example_request) =
     (Some StreamIdNotAvailable, on_connection example_ext bare_server example_request) \<and>
   readyState after_first_start = OPEN \<and>
   getStreamId after_first_start = Some ''11111111-aaaa-4bbb-8ccc-000000000001'' \<and>
   checkpoint after_first_start ''mark'' =
     (None, after_first_start\<lparr>trace := trace after_first_start @
        [WsSend (JObject [(''event'', JString ''checkpoint''),
                          (''streamId'', JString ''11111111-aaaa-4bbb-8ccc-000000000001''),
                          (''name'', JString ''mark'')])]\<rparr>) \<and>
   \<not> uuid_format example_ext [] \<and>
   dispatched (trace (run example_ext bare_server example_request [Message ''{}''])) = [JObject []] \<and>
   \<not> valid_start example_ext (JObject []) \<and>
   getStreamId (run example_ext bare_server example_request [Message ''{}'']) = None"
proof -
  let ?closed = "after_first_start\<lparr>readyState := CLOSED\<rparr>"
  let ?fresh = "on_connection example_ext bare_server example_request"
  let ?sid = "''11111111-aaaa-4bbb-8ccc-000000000001''"
  have a: "readyState ?closed \<noteq> OPEN" by simp
  have b: "readyState ?fresh = OPEN" "getStreamId ?fresh = None"
    by (simp_all add: getStreamId_def model_defs example_defs)
  have c: "readyState after_first_start = OPEN" "getStreamId after_first_start = Some ?sid"
    by (simp_all add: getStreamId_def model_defs example_defs more_example_defs)
  have u: "\<not> uuid_format example_ext []"
    by (simp add: example_ext_def)
  have d: "dispatched (trace (run example_ext bare_server example_request [Message ''{}''])) = [JObject []]"
    by (simp add: model_defs example_defs)
  have v: "\<forall>j \<in> set (dispatched (trace (run example_ext bare_server example_request [Message ''{}'']))).
             \<not> valid_start example_ext j"
    by (simp add: d valid_start_def)
  show ?thesis
    using outbound_command_preconditions [of ?closed "''mark''" ?sid example_ext bare_server example_request "[Message ''{}'']"]
          outbound_command_preconditions [of ?fresh "''mark''" ?sid example_ext bare_server example_request "[Message ''{}'']"]
          outbound_command_preconditions [of after_first_start "''mark''" ?sid example_ext bare_server example_request "[Message ''{}'']"]
          a b c u v d
    by (simp add: valid_start_def)
qed

text \<open>
  C7 fails on \<open>handleError\<close>: of two registered error listeners the first throws; on a
  transport error the second is never called and the exception leaves the socket's
  \<open>error\<close> handler uncaught. The loop of the set-up failure path catches each
  listener's exception; the loop of \<open>handleError\<close> does not.
\<close>

theorem error_listener_exception_escapes:
  "trace (step example_ext throwing_error_server example_request
            (on_connection example_ext throwing_error_server example_request) SocketError) =
     [Call OnConnection 0 (RequestArg example_request),
      Call OnError 0 (ErrorArg WebSocketErrorOccurred),
      Uncaught (Thrown ''error listener failed'')]"
  by (simp add: model_defs example_defs throwing_error_server_def)

text \<open>
  C8. Decoding the base64 text of a byte sequence gives the byte sequence back. So when
  \<open>playAudio\<close> sends a payload on an open socket, the raw-media accessor of any media
  event that carries the \<open>media.payload\<close> of the message sent returns the bytes that
  were given to \<open>playAudio\<close>.
\<close>

theorem playAudio_getRawMedia_round_trip:
  "base64_decode (base64_encode payload) = payload \<and>
   (readyState c = OPEN \<longrightarrow>
      (\<exists>msg. trace (playAudio c contentType sampleRate payload) = trace c @ [WsSend msg] \<and>
         string_at msg [''media'', ''payload''] = Some (base64_encode payload) \<and>
         (\<forall>mediaEvent.
            string_at mediaEvent [''media'', ''payload''] = string_at msg [''media'', ''payload''] \<longrightarrow>
            getRawMedia mediaEvent = payload)))"
  by (simp add: base64_round_trip playAudio_def ws_send_def getRawMedia_def)

theorem playAudio_getRawMedia_round_trip_witness:
  "readyState new_socket = OPEN \<and>
   trace (playAudio new_socket ''audio/x-mulaw'' (Finite 8000) [72, 105, 33, 10]) =
     [WsSend (JObject
        [(''event'', JString ''playAudio''),
         (''media'', JObject
            [(''contentType'', JString ''audio/x-mulaw''),
             (''sampleRate'', JNumber (Finite 8000)),
             (''payload'', JString ''SGkhCg=='')])])] \<and>
   string_at (example_media ''SGkhCg=='') [''media'', ''payload''] = Some ''SGkhCg=='' \<and>
   getRawMedia (example_media ''SGkhCg=='') = [72, 105, 33, 10]"
proof -
  have e: "base64_encode [72, 105, 33, 10] = ''SGkhCg==''"
    by code_simp
  have o: "readyState new_socket = OPEN" "trace new_socket = []"
    by (simp_all add: new_socket_def)
  have s: "string_at (example_media ''SGkhCg=='') [''media'', ''payload''] = Some ''SGkhCg==''"
    by (simp add: example_media_def)
  obtain msg where m: "trace (playAudio new_socket ''audio/x-mulaw'' (Finite 8000) [72, 105, 33, 10]) =
        trace new_socket @ [WsSend msg]"
      "string_at msg [''media'', ''payload''] = Some (base64_encode [72, 105, 33, 10])"
      "\<forall>mediaEvent. string_at mediaEvent [''media'', ''payload''] = string_at msg [''media'', ''payload''] \<longrightarrow>
         getRawMedia mediaEvent = [72, 105, 33, 10]"
    using playAudio_getRawMedia_round_trip [of "[72, 105, 33, 10]" new_socket "''audio/x-mulaw''" "Finite 8000"] o
    by blast
  have "getRawMedia (example_media ''SGkhCg=='') = [72, 105, 33, 10]"
    using m(2,3) s e by simp
  moreover have "trace (playAudio new_socket ''audio/x-mulaw'' (Finite 8000) [72, 105, 33, 10]) =
     [WsSend (JObject
        [(''event'', JString ''playAudio''),
         (''media'', JObject
            [(''contentType'', JString ''audio/x-mulaw''),
             (''sampleRate'', JNumber (Finite 8000)),
             (''payload'', JString ''SGkhCg=='')])])]"
    using o e by (simp add: playAudio_def ws_send_def)
  ultimately show ?thesis
    using o s by simp
qed

text \<open>
  C9, as the code has it. A decoded value whose \<open>event\<close> is \<open>start\<close> passes
  \<open>StartEventSchema\<close> exactly when \<open>callId\<close> and \<open>streamId\<close> are strings of the
  identifier format, \<open>accountId\<close> is a string, \<open>tracks\<close> is an array of strings,
  \<open>mediaFormat.encoding\<close> is a string, \<open>mediaFormat.sampleRate\<close> and \<open>sequenceNumber\<close>
  are finite numbers (of any sign, integral or not) and \<open>extra_headers\<close> is a string. It
  then returns the value without the keys the schema does not name, which meets the
  same requirements; otherwise it fails with a non-empty list of issues whose paths are
  the fields that do not meet their requirement.
\<close>

theorem start_event_validation:
  assumes "get_prop v ''event'' = Some (JString ''start'')"
  shows "(start_requirements (uuid_format ext) v \<longrightarrow>
            parse ext StartEventSchema v = Inr (zoutput StartEventSchema v) \<and>
            start_requirements (uuid_format ext) (zoutput StartEventSchema v)) \<and>
         (\<not> start_requirements (uuid_format ext) v \<longrightarrow>
            parse ext StartEventSchema v =
              Inl (ZodError (zissues (uuid_format ext) StartEventSchema [] (Some v))) \<and>
            map issue_path (zissues (uuid_format ext) StartEventSchema [] (Some v)) =
              start_violations (uuid_format ext) v \<and>
            start_violations (uuid_format ext) v \<noteq> [])"
proof -
  obtain fs where v: "v = JObject fs"
    using assms by (cases v) simp_all
  have p: "map issue_path (zissues (uuid_format ext) StartEventSchema [] (Some v)) =
             start_violations (uuid_format ext) v"
    by (simp only: v paths_StartEvent)
  show ?thesis
    using zissues_StartEvent_empty [OF assms, of "uuid_format ext"]
          start_violations_empty [OF assms, of "uuid_format ext"]
          start_output_requirements [of "uuid_format ext" v] p
    by (simp add: parse_StartEvent)
qed

theorem start_event_validation_witness:
  "get_prop (example_start ''2b1c2b7e-3d4a-4e5f-8a6b-7c8d9e0f1a2b'' 8000) ''event'' = Some (JString ''start'') \<and>
   start_requirements (uuid_format example_ext) (example_start ''2b1c2b7e-3d4a-4e5f-8a6b-7c8d9e0f1a2b'' 8000) \<and>
   parse example_ext StartEventSchema (example_start ''2b1c2b7e-3d4a-4e5f-8a6b-7c8d9e0f1a2b'' 8000) =
     Inr (example_start ''2b1c2b7e-3d4a-4e5f-8a6b-7c8d9e0f1a2b'' 8000) \<and>
   get_prop (example_start ''not-an-identifier'' 8000) ''event'' = Some (JString ''start'') \<and>
   \<not> start_requirements (uuid_format example_ext) (example_start ''not-an-identifier'' 8000) \<and>
   parse example_ext StartEventSchema (example_start ''not-an-identifier'' 8000) =
     Inl (ZodError [Issue (invalid_format ''uuid'') [Key ''start'', Key ''streamId'']]) \<and>
   start_violations (uuid_format example_ext) (example_start ''not-an-identifier'' 8000) =
     [[Key ''start'', Key ''streamId'']]"
proof -
  let ?good = "example_start ''2b1c2b7e-3d4a-4e5f-8a6b-7c8d9e0f1a2b'' 8000"
  let ?bad = "example_start ''not-an-identifier'' 8000"
  have e1: "get_prop ?good ''event'' = Some (JString ''start'')"
    by (simp add: example_start_def)
  have e2: "get_prop ?bad ''event'' = Some (JString ''start'')"
    by (simp add: example_start_def)
  have r1: "start_requirements (uuid_format example_ext) ?good"
    by (simp add: start_requirements_def example_start_def example_ext_def)
  have r2: "\<not> start_requirements (uuid_format example_ext) ?bad"
    by (simp add: start_requirements_def example_start_def example_ext_def)
  have o: "zoutput StartEventSchema ?good = ?good"
    by (simp add: example_start_def StartEventSchema_def StartEventDataSchema_def)
  have i: "zissues (uuid_format example_ext) StartEventSchema [] (Some ?bad) =
             [Issue (invalid_format ''uuid'') [Key ''start'', Key ''streamId'']]"
    by (simp add: example_start_def StartEventSchema_def StartEventDataSchema_def example_ext_def)
  show ?thesis
    using start_event_validation [OF e1, of example_ext] start_event_validation [OF e2, of example_ext]
          e1 e2 r1 r2 o i
    by simp
qed

text \<open>
  C9 as stated fails: a start event whose \<open>sampleRate\<close> is \<open>-1\<close> passes validation,
  although \<open>-1\<close> is no positive integer.
\<close>

theorem start_event_validation_counterexample:
  "parse example_ext StartEventSchema (example_start ''2b1c2b7e-3d4a-4e5f-8a6b-7c8d9e0f1a2b'' (- 1)) =
     Inr (example_start ''2b1c2b7e-3d4a-4e5f-8a6b-7c8d9e0f1a2b'' (- 1)) \<and>
   \<not> start_requirements_as_specified (uuid_format example_ext)
        (example_start ''2b1c2b7e-3d4a-4e5f-8a6b-7c8d9e0f1a2b'' (- 1))"
  by (simp add: parse_def example_start_def StartEventSchema_def StartEventDataSchema_def
      example_ext_def start_requirements_as_specified_def)

text \<open>
  C10. On a connection on which no valid start event has been dispatched, and on a
  connection that was rejected at signature validation, the four accessors return the
  absent value.
\<close>

theorem accessors_before_start:
  "((\<forall>j \<in> set (dispatched (trace (run ext srv req evs))). \<not> valid_start ext j) \<longrightarrow>
      getStreamId (run ext srv req evs) = None \<and> getAccountId (run ext srv req evs) = None \<and>
      getCallId (run ext srv req evs) = None \<and> getHeaders (run ext srv req evs) = None) \<and>
   (validateSignatureEnabled srv \<and> \<not> fst (validateConnectionSignature ext srv req) \<longrightarrow>
      getStreamId (run ext srv req evs) = None \<and> getAccountId (run ext srv req evs) = None \<and>
      getCallId (run ext srv req evs) = None \<and> getHeaders (run ext srv req evs) = None)"
proof -
  have "validateSignatureEnabled srv \<and> \<not> fst (validateConnectionSignature ext srv req) \<Longrightarrow>
        \<forall>j \<in> set (dispatched (trace (run ext srv req evs))). \<not> valid_start ext j"
    using rejected_gate_shut [of srv ext req evs] by (simp add: gate_shut_def)
  then show ?thesis
    using getters_no_start [of ext srv req evs] by blast
qed

theorem accessors_before_start_witness:
  "dispatched (trace (run example_ext bare_server example_request [Message ''{}'', Message ''null''])) =
     [JObject [], JNull] \<and>
   \<not> valid_start example_ext (JObject []) \<and> \<not> valid_start example_ext JNull \<and>
   getStreamId (run example_ext bare_server example_request [Message ''{}'', Message ''null'']) = None \<and>
   getHeaders (run example_ext bare_server example_request [Message ''{}'', Message ''null'']) = None \<and>
   validateSignatureEnabled signing_server \<and>
   \<not> fst (validateConnectionSignature example_ext signing_server example_request) \<and>
   getStreamId (run example_ext signing_server example_request [Message ''{}'']) = None \<and>
   getCallId (run example_ext signing_server example_request [Message ''{}'']) = None"
proof -
  let ?evs = "[Message ''{}'', Message ''null'']"
  have d: "dispatched (trace (run example_ext bare_server example_request ?evs)) = [JObject [], JNull]"
    by (simp add: model_defs example_defs)
  have v: "\<forall>j \<in> set (dispatched (trace (run example_ext bare_server example_request ?evs))).
             \<not> valid_start example_ext j"
    by (simp add: d valid_start_def)
  have s: "validateSignatureEnabled signing_server"
    by (simp add: signing_server_def bare_server_def)
  have r: "\<not> fst (validateConnectionSignature example_ext signing_server example_request)"
    by (simp add: validateConnectionSignature_def header_def truthy_def example_request_def)
  have n: "\<not> valid_start example_ext (JObject [])" "\<not> valid_start example_ext JNull"
    by (simp_all add: valid_start_def)
  show ?thesis
    using accessors_before_start [of example_ext bare_server example_request ?evs]
          accessors_before_start [of example_ext signing_server example_request "[Message ''{}'']"]
          d v s r n
    by simp
qed

end
